theory Spec2Isabelle
  imports Complex_Main
begin

section \<open>Floating-point values\<close>

text \<open>
  The arrays of \<^verbatim>\<open>aperture_funcs.py\<close> hold IEEE doubles. A value is modelled as a real
  number, one of the two infinities, or NaN. The special values follow IEEE 754:
  NaN is absorbing, \<open>inf - inf\<close>, \<open>0 * inf\<close>, \<open>0 / 0\<close> and \<open>inf / inf\<close> are NaN, a non-zero
  value divided by zero is an infinity (numpy warns, it does not raise), and the square
  root of a negative value is NaN. Rounding, overflow of finite results and the sign of
  zero are outside the model (zero is taken as positive); physical units, which
  \<^verbatim>\<open>astropy.units\<close> attaches to the arrays, are outside it too.
\<close>

datatype flt = NaN | NInf | Fin real | PInf

fun isnan :: "flt \<Rightarrow> bool" where
  "isnan NaN = True"
| "isnan _ = False"

fun fneg :: "flt \<Rightarrow> flt" where
  "fneg NaN = NaN"
| "fneg NInf = PInf"
| "fneg PInf = NInf"
| "fneg (Fin a) = Fin (- a)"

fun fadd :: "flt \<Rightarrow> flt \<Rightarrow> flt" where
  "fadd NaN _ = NaN"
| "fadd _ NaN = NaN"
| "fadd PInf NInf = NaN"
| "fadd NInf PInf = NaN"
| "fadd PInf _ = PInf"
| "fadd _ PInf = PInf"
| "fadd NInf _ = NInf"
| "fadd _ NInf = NInf"
| "fadd (Fin a) (Fin b) = Fin (a + b)"

definition fsub :: "flt \<Rightarrow> flt \<Rightarrow> flt" where
  "fsub x y = fadd x (fneg y)"

text \<open>The sign of a value that is not NaN: \<open>-1\<close>, \<open>0\<close> or \<open>1\<close>.\<close>

fun fsign :: "flt \<Rightarrow> int" where
  "fsign NaN = 0"
| "fsign NInf = - 1"
| "fsign PInf = 1"
| "fsign (Fin a) = (if a < 0 then - 1 else if a = 0 then 0 else 1)"

definition signed_inf :: "int \<Rightarrow> flt" where
  "signed_inf s = (if s < 0 then NInf else if s = 0 then NaN else PInf)"

fun fmul :: "flt \<Rightarrow> flt \<Rightarrow> flt" where
  "fmul NaN _ = NaN"
| "fmul _ NaN = NaN"
| "fmul (Fin a) (Fin b) = Fin (a * b)"
| "fmul x y = signed_inf (fsign x * fsign y)"

fun fdiv :: "flt \<Rightarrow> flt \<Rightarrow> flt" where
  "fdiv NaN _ = NaN"
| "fdiv _ NaN = NaN"
| "fdiv (Fin a) (Fin b) = (if b = 0 then signed_inf (fsign (Fin a)) else Fin (a / b))"
| "fdiv (Fin a) _ = Fin 0"
| "fdiv x (Fin b) = signed_inf (fsign x * (if b < 0 then - 1 else 1))"
| "fdiv _ _ = NaN"

text \<open>\<^verbatim>\<open>x ** 2\<close> on a float array is the product of the value with itself.\<close>

definition fsq :: "flt \<Rightarrow> flt" where
  "fsq x = fmul x x"

fun fsqrt :: "flt \<Rightarrow> flt" where
  "fsqrt NaN = NaN"
| "fsqrt NInf = NaN"
| "fsqrt PInf = PInf"
| "fsqrt (Fin a) = (if a < 0 then NaN else Fin (sqrt a))"

text \<open>\<^verbatim>\<open>np.maximum\<close> returns NaN as soon as one operand is NaN.\<close>

fun fmax :: "flt \<Rightarrow> flt \<Rightarrow> flt" where
  "fmax NaN _ = NaN"
| "fmax _ NaN = NaN"
| "fmax PInf _ = PInf"
| "fmax _ PInf = PInf"
| "fmax NInf y = y"
| "fmax x NInf = x"
| "fmax (Fin a) (Fin b) = Fin (max a b)"

text \<open>The comparison \<^verbatim>\<open>x >= 0\<close>: false on NaN.\<close>

fun nonneg :: "flt \<Rightarrow> bool" where
  "nonneg (Fin a) = (0 \<le> a)"
| "nonneg PInf = True"
| "nonneg _ = False"


section \<open>Exceptions\<close>

text \<open>
  Every place of the module that can raise is a constructor; \<open>exc_class\<close> gives the
  Python class of the exception raised there.
\<close>

datatype error =
    SubscriptOutOfRange
  | MaskLengthMismatch
  | FormatIndexOutOfRange
  | ShapeMismatch
  | NotEnoughValuesToUnpack
  | UnsupportedMode string
  | BadArguments

datatype exception_class = IndexError | ValueError | TypeError

fun exc_class :: "error \<Rightarrow> exception_class" where
  "exc_class SubscriptOutOfRange = IndexError"
| "exc_class MaskLengthMismatch = IndexError"
| "exc_class FormatIndexOutOfRange = IndexError"
| "exc_class ShapeMismatch = ValueError"
| "exc_class NotEnoughValuesToUnpack = ValueError"
| "exc_class (UnsupportedMode msg) = ValueError"
| "exc_class BadArguments = TypeError"

text \<open>Sequencing of two computations that may raise.\<close>

definition bindE :: "error + 'a \<Rightarrow> ('a \<Rightarrow> error + 'b) \<Rightarrow> error + 'b" where
  "bindE m f = (case m of Inl e \<Rightarrow> Inl e | Inr x \<Rightarrow> f x)"


section \<open>Two-dimensional arrays\<close>

text \<open>
  A numpy array of two dimensions: its shape and its cells. Only the cells inside the
  shape are ever read.
\<close>

record arr2 =
  nrows :: nat
  ncols :: nat
  cell :: "nat \<Rightarrow> nat \<Rightarrow> flt"

text \<open>
  A slice bound \<open>k\<close> on an axis of length \<open>n\<close>: a negative bound counts from the end,
  and every bound is clipped to the axis.
\<close>

definition slice_bound :: "nat \<Rightarrow> int \<Rightarrow> nat" where
  "slice_bound n k = (if k < 0 then nat (max (k + int n) 0) else min (nat k) n)"

text \<open>
  \<^verbatim>\<open>A[r0:r1, c0:c1]\<close>. An axis whose stop is not beyond its start is empty (the
  subtraction on \<open>nat\<close> stops at zero).
\<close>

definition window :: "arr2 \<Rightarrow> int \<Rightarrow> int \<Rightarrow> int \<Rightarrow> int \<Rightarrow> arr2" where
  "window A r0 r1 c0 c1 =
     (let rs = slice_bound (nrows A) r0; re = slice_bound (nrows A) r1;
          cs = slice_bound (ncols A) c0; ce = slice_bound (ncols A) c1
      in \<lparr>nrows = re - rs, ncols = ce - cs, cell = (\<lambda>r c. cell A (rs + r) (cs + c))\<rparr>)"

text \<open>\<^verbatim>\<open>A[r, c]\<close> with integer subscripts: negative ones count from the end.\<close>

definition axis_index :: "nat \<Rightarrow> int \<Rightarrow> error + nat" where
  "axis_index n k =
     (let j = (if k < 0 then k + int n else k)
      in if 0 \<le> j \<and> j < int n then Inr (nat j) else Inl SubscriptOutOfRange)"

definition subscript :: "arr2 \<Rightarrow> int \<Rightarrow> int \<Rightarrow> error + flt" where
  "subscript A r c =
     bindE (axis_index (nrows A) r) (\<lambda>i.
     bindE (axis_index (ncols A) c) (\<lambda>j. Inr (cell A i j)))"

text \<open>Broadcasting of one axis: equal lengths, or one of them is 1.\<close>

definition bdim :: "nat \<Rightarrow> nat \<Rightarrow> nat option" where
  "bdim a b = (if a = b then Some a else if a = 1 then Some b
               else if b = 1 then Some a else None)"

definition bidx :: "nat \<Rightarrow> nat \<Rightarrow> nat" where
  "bidx n i = (if n = 1 then 0 else i)"

text \<open>An element-wise binary operation on two arrays, with broadcasting.\<close>

definition bop :: "(flt \<Rightarrow> flt \<Rightarrow> flt) \<Rightarrow> arr2 \<Rightarrow> arr2 \<Rightarrow> error + arr2" where
  "bop f A B =
     (case (bdim (nrows A) (nrows B), bdim (ncols A) (ncols B)) of
        (Some r, Some c) \<Rightarrow>
          Inr \<lparr>nrows = r, ncols = c,
               cell = (\<lambda>i j. f (cell A (bidx (nrows A) i) (bidx (ncols A) j))
                                (cell B (bidx (nrows B) i) (bidx (ncols B) j)))\<rparr>
      | _ \<Rightarrow> Inl ShapeMismatch)"

text \<open>\<^verbatim>\<open>A += B\<close>: the broadcast result has to fit the shape of \<open>A\<close>.\<close>

definition iadd :: "arr2 \<Rightarrow> arr2 \<Rightarrow> error + arr2" where
  "iadd A B =
     bindE (bop fadd A B) (\<lambda>C.
       if nrows C = nrows A \<and> ncols C = ncols A then Inr C else Inl ShapeMismatch)"

definition amap :: "(flt \<Rightarrow> flt) \<Rightarrow> arr2 \<Rightarrow> arr2" where
  "amap f A = \<lparr>nrows = nrows A, ncols = ncols A, cell = (\<lambda>i j. f (cell A i j))\<rparr>"

text \<open>\<^verbatim>\<open>np.sum(A)\<close>: the sum of all cells, \<open>0\<close> for an empty array.\<close>

definition cells :: "arr2 \<Rightarrow> flt list" where
  "cells A = concat (map (\<lambda>i. map (\<lambda>j. cell A i j) [0..<ncols A]) [0..<nrows A])"

definition asum :: "arr2 \<Rightarrow> flt" where
  "asum A = foldl fadd (Fin 0) (cells A)"


section \<open>The variance aggregator\<close>

text \<open>
  \<^verbatim>\<open>int(x)\<close> on a float truncates towards zero.
\<close>

definition py_int :: "real \<Rightarrow> int" where
  "py_int x = (if 0 \<le> x then \<lfloor>x\<rfloor> else \<lceil>x\<rceil>)"

text \<open>
  The subscript \<^verbatim>\<open>int((lo + hi) / 2 + 0.5)\<close> of \<^verbatim>\<open>find_fluxvar\<close>; the division is the
  true division of \<^verbatim>\<open>from __future__ import division\<close>.
\<close>

definition center_index :: "int \<Rightarrow> int \<Rightarrow> int" where
  "center_index lo hi = py_int (real_of_int (lo + hi) / 2 + 1 / 2)"

definition find_fluxvar ::
  "arr2 \<Rightarrow> arr2 \<Rightarrow> arr2 \<Rightarrow> flt \<Rightarrow> arr2 option \<Rightarrow> int \<Rightarrow> int \<Rightarrow> int \<Rightarrow> int \<Rightarrow> bool
     \<Rightarrow> error + flt" where
  "find_fluxvar data fraction error flux gain imin imax jmin jmax pixelwise_error =
     (if pixelwise_error then
        bindE (case gain of
                 None \<Rightarrow> Inr (amap fsq (window error jmin jmax imin imax))
               | Some g \<Rightarrow>
                   bindE (bop fdiv (window data jmin jmax imin imax)
                                   (window g jmin jmax imin imax))
                     (iadd (amap fsq (window error jmin jmax imin imax))))
          (\<lambda>subvariance.
        bindE (bop fmul subvariance fraction) (\<lambda>weighted.
          Inr (fmax (asum weighted) (Fin 0))))
      else
        bindE (subscript error (center_index jmin jmax) (center_index imin imax))
          (\<lambda>local_error.
        let fluxvar = fmax (fmul (fsq local_error) (asum fraction)) (Fin 0)
        in case gain of
             None \<Rightarrow> Inr fluxvar
           | Some g \<Rightarrow>
               bindE (subscript g (center_index jmin jmax) (center_index imin imax))
                 (\<lambda>local_gain. Inr (fadd fluxvar (fdiv flux local_gain)))))"


section \<open>The single-aperture photometers\<close>

text \<open>
  The dictionary \<^verbatim>\<open>extents\<close> with its three keys. \<open>pixel_extent\<close> is
  \<^verbatim>\<open>(x_min, x_max, y_min, y_max)\<close>, integer arrays; \<open>phot_extent\<close> is
  \<^verbatim>\<open>(x_pmin, x_pmax, y_pmin, y_pmax)\<close>, float arrays.
\<close>

record extents =
  ood_filter :: "bool list"
  pixel_extent :: "int list \<times> int list \<times> int list \<times> int list"
  phot_extent :: "flt list \<times> flt list \<times> flt list \<times> flt list"

type_synonym position = "flt \<times> flt"

text \<open>
  The \<^verbatim>\<open>AstropyUserWarning\<close> of the photometers; it carries the positions that the
  message names, \<^verbatim>\<open>positions[ood_filter]\<close>.
\<close>

datatype warning = NoOverlapWarning "position list"

text \<open>
  What a photometer returns: the tuple \<^verbatim>\<open>(flux, )\<close> or the tuple
  \<^verbatim>\<open>(flux, fluxerr)\<close>.
\<close>

datatype phot_result = Tuple1 "flt list" | Tuple2 "flt list" "flt list"

text \<open>A call: the warnings it emitted, and the exception raised or the value returned.\<close>

type_synonym 'a run = "warning list \<times> (error + 'a)"

definition bindW :: "'a run \<Rightarrow> ('a \<Rightarrow> 'b run) \<Rightarrow> 'b run" where
  "bindW m f =
     (case m of
        (w, Inl e) \<Rightarrow> (w, Inl e)
      | (w, Inr x) \<Rightarrow> (case f x of (w', r) \<Rightarrow> (w @ w', r)))"

text \<open>\<^verbatim>\<open>xs[i]\<close> for a loop index \<open>i\<close>, which is never negative.\<close>

definition item :: "'a list \<Rightarrow> nat \<Rightarrow> error + 'a" where
  "item xs i = (if i < length xs then Inr (xs ! i) else Inl SubscriptOutOfRange)"

text \<open>\<^verbatim>\<open>np.sum(flags)\<close> on a boolean array counts its true entries.\<close>

definition count_true :: "bool list \<Rightarrow> nat" where
  "count_true flags = length (filter (\<lambda>b. b) flags)"

text \<open>
  \<^verbatim>\<open>xs[flags] = v\<close> and \<^verbatim>\<open>xs[flags]\<close> with a boolean array \<open>flags\<close>: it has to be as long
  as the array.
\<close>

definition mask_assign :: "'a list \<Rightarrow> bool list \<Rightarrow> 'a \<Rightarrow> error + 'a list" where
  "mask_assign xs flags v =
     (if length flags = length xs
      then Inr (map (\<lambda>(x, m). if m then v else x) (zip xs flags))
      else Inl MaskLengthMismatch)"

definition mask_select :: "'a list \<Rightarrow> bool list \<Rightarrow> error + 'a list" where
  "mask_select xs flags =
     (if length flags = length xs
      then Inr (map fst (filter snd (zip xs flags)))
      else Inl MaskLengthMismatch)"

text \<open>
  Lines 72 to 79 and 134 to 141: the method string gives \<^verbatim>\<open>use_exact\<close> and the
  subpixel count handed to the overlap function.
\<close>

definition resolve_method :: "string \<Rightarrow> int \<Rightarrow> int \<times> int" where
  "resolve_method method subpixels =
     (if method = ''center'' then (0, 1)
      else if method = ''subpixel'' then (0, subpixels)
      else (1, 1))"

text \<open>
  The overlap functions of \<^verbatim>\<open>photutils.geometry\<close> are not part of the module; they
  are parameters of the model, pure functions from their arguments to the grid of
  overlap fractions. Below, \<open>overlap_grid\<close> is such a function with the shape
  parameters already supplied:
  \<^verbatim>\<open>xmin xmax ymin ymax nx ny use_exact subpixels\<close>.
\<close>

type_synonym overlap_grid =
  "flt \<Rightarrow> flt \<Rightarrow> flt \<Rightarrow> flt \<Rightarrow> int \<Rightarrow> int \<Rightarrow> int \<Rightarrow> int \<Rightarrow> arr2"

type_synonym circular_overlap =
  "flt \<Rightarrow> flt \<Rightarrow> flt \<Rightarrow> flt \<Rightarrow> int \<Rightarrow> int \<Rightarrow> flt \<Rightarrow> int \<Rightarrow> int \<Rightarrow> arr2"

type_synonym elliptical_overlap =
  "flt \<Rightarrow> flt \<Rightarrow> flt \<Rightarrow> flt \<Rightarrow> int \<Rightarrow> int \<Rightarrow> flt \<Rightarrow> flt \<Rightarrow> flt \<Rightarrow> int \<Rightarrow> int \<Rightarrow> arr2"

text \<open>
  The overlap fractions of position \<open>i\<close>: the subscripts \<^verbatim>\<open>x_pmin[i]\<close>, ...,
  \<^verbatim>\<open>y_min[i]\<close> and the call of the overlap function.
\<close>

definition fraction_at :: "overlap_grid \<Rightarrow> extents \<Rightarrow> int \<Rightarrow> int \<Rightarrow> nat \<Rightarrow> error + arr2" where
  "fraction_at grid ext use_exact subpixels i =
     (case (pixel_extent ext, phot_extent ext) of
        ((x_min, x_max, y_min, y_max), (x_pmin, x_pmax, y_pmin, y_pmax)) \<Rightarrow>
          bindE (item x_pmin i) (\<lambda>xpmin. bindE (item x_pmax i) (\<lambda>xpmax.
          bindE (item y_pmin i) (\<lambda>ypmin. bindE (item y_pmax i) (\<lambda>ypmax.
          bindE (item x_max i) (\<lambda>xmax. bindE (item x_min i) (\<lambda>xmin.
          bindE (item y_max i) (\<lambda>ymax. bindE (item y_min i) (\<lambda>ymin.
            Inr (grid xpmin xpmax ypmin ypmax (xmax - xmin) (ymax - ymin)
                   use_exact subpixels))))))))))"

text \<open>\<^verbatim>\<open>data[y_min[i]:y_max[i], x_min[i]:x_max[i]]\<close>.\<close>

definition data_window :: "arr2 \<Rightarrow> extents \<Rightarrow> nat \<Rightarrow> error + arr2" where
  "data_window data ext i =
     (case pixel_extent ext of
        (x_min, x_max, y_min, y_max) \<Rightarrow>
          bindE (item y_min i) (\<lambda>ymin. bindE (item y_max i) (\<lambda>ymax.
          bindE (item x_min i) (\<lambda>xmin. bindE (item x_max i) (\<lambda>xmax.
            Inr (window data ymin ymax xmin xmax))))))"

text \<open>
  The call of \<^verbatim>\<open>find_fluxvar\<close> in the loop, with the bounds of position \<open>i\<close>.
\<close>

definition fluxvar_at ::
  "arr2 \<Rightarrow> arr2 \<Rightarrow> arr2 \<Rightarrow> flt \<Rightarrow> arr2 option \<Rightarrow> extents \<Rightarrow> bool \<Rightarrow> nat \<Rightarrow> error + flt" where
  "fluxvar_at data fraction err flux_i gain ext pixelwise_error i =
     (case pixel_extent ext of
        (x_min, x_max, y_min, y_max) \<Rightarrow>
          bindE (item x_min i) (\<lambda>xmin. bindE (item x_max i) (\<lambda>xmax.
          bindE (item y_min i) (\<lambda>ymin. bindE (item y_max i) (\<lambda>ymax.
            find_fluxvar data fraction err flux_i gain xmin xmax ymin ymax
              pixelwise_error)))))"

text \<open>
  The body of the loop over the positions, on the pair of the arrays \<^verbatim>\<open>flux\<close> and
  \<^verbatim>\<open>fluxvar\<close> (the second is not bound when no error map is given, and is then never
  read or written).
\<close>

definition photometry_step ::
  "overlap_grid \<Rightarrow> arr2 \<Rightarrow> extents \<Rightarrow> arr2 option \<Rightarrow> arr2 option \<Rightarrow> bool \<Rightarrow> int \<Rightarrow> int
     \<Rightarrow> nat \<Rightarrow> flt list \<times> flt list \<Rightarrow> error + flt list \<times> flt list" where
  "photometry_step grid data ext error gain pixelwise_error use_exact subpixels i st =
     (case st of (flux, fluxvar) \<Rightarrow>
        bindE (item flux i) (\<lambda>flux_i.
          if \<not> isnan flux_i then
            bindE (fraction_at grid ext use_exact subpixels i) (\<lambda>fraction.
            bindE (data_window data ext i) (\<lambda>win.
            bindE (bop fmul win fraction) (\<lambda>weighted.
              case error of
                None \<Rightarrow> Inr (flux[i := asum weighted], fluxvar)
              | Some err \<Rightarrow>
                  bindE (fluxvar_at data fraction err (asum weighted) gain ext
                           pixelwise_error i)
                    (\<lambda>v. Inr (flux[i := asum weighted], fluxvar[i := v])))))
          else Inr (flux, fluxvar)))"

text \<open>\<^verbatim>\<open>for i in range(len(flux))\<close>: the body runs on each index in turn.\<close>

fun photometry_loop ::
  "(nat \<Rightarrow> 's \<Rightarrow> error + 's) \<Rightarrow> nat list \<Rightarrow> 's \<Rightarrow> error + 's" where
  "photometry_loop body [] st = Inr st"
| "photometry_loop body (i # is) st =
     (case body i st of Inl e \<Rightarrow> Inl e | Inr st' \<Rightarrow> photometry_loop body is st')"

text \<open>
  Lines 69 to 105 (and 131 to 166): what follows the handling of the positions outside
  the data.
\<close>

definition photometry_main ::
  "overlap_grid \<Rightarrow> arr2 \<Rightarrow> extents \<Rightarrow> arr2 option \<Rightarrow> arr2 option \<Rightarrow> bool \<Rightarrow> string \<Rightarrow> int
     \<Rightarrow> flt list \<Rightarrow> flt list \<Rightarrow> error + phot_result" where
  "photometry_main grid data ext error gain pixelwise_error method subpixels flux fluxvar =
     (case resolve_method method subpixels of
        (use_exact, subpixels') \<Rightarrow>
          bindE (photometry_loop
                   (photometry_step grid data ext error gain pixelwise_error
                      use_exact subpixels')
                   [0..<length flux] (flux, fluxvar))
            (\<lambda>(flux', fluxvar').
               case error of
                 None \<Rightarrow> Inr (Tuple1 flux')
               | Some err \<Rightarrow> Inr (Tuple2 flux' (map fsqrt fluxvar'))))"

text \<open>
  \<^verbatim>\<open>do_circular_photometry\<close> and \<^verbatim>\<open>do_elliptical_photometry\<close> are the same text up to
  the overlap function they call; \<open>do_photometry\<close> is that text.
\<close>

definition do_photometry ::
  "overlap_grid \<Rightarrow> arr2 \<Rightarrow> position list \<Rightarrow> extents \<Rightarrow> arr2 option \<Rightarrow> arr2 option \<Rightarrow> bool
     \<Rightarrow> string \<Rightarrow> int \<Rightarrow> phot_result run" where
  "do_photometry grid data positions ext error gain pixelwise_error method subpixels =
     (let flux = replicate (length positions) (Fin 0);
          fluxvar = (case error of None \<Rightarrow> [] | Some err \<Rightarrow> replicate (length positions) (Fin 0))
      in if count_true (ood_filter ext) \<noteq> 0 then
           (case mask_assign flux (ood_filter ext) NaN of
              Inl e \<Rightarrow> ([], Inl e)
            | Inr flux1 \<Rightarrow>
                (case mask_select positions (ood_filter ext) of
                   Inl e \<Rightarrow> ([], Inl e)
                 | Inr outside \<Rightarrow>
                     ([NoOverlapWarning outside],
                      if count_true (ood_filter ext) = length positions
                      then Inr (Tuple1 flux1)
                      else photometry_main grid data ext error gain pixelwise_error
                             method subpixels flux1 fluxvar)))
         else ([], photometry_main grid data ext error gain pixelwise_error
                     method subpixels flux fluxvar))"

text \<open>The overlap functions with the shape parameters of the call supplied.\<close>

definition circular_grid :: "circular_overlap \<Rightarrow> flt \<Rightarrow> overlap_grid" where
  "circular_grid circular_overlap_grid radius =
     (\<lambda>xa xb ya yb nx ny use_exact sp.
        circular_overlap_grid xa xb ya yb nx ny radius use_exact sp)"

definition elliptical_grid :: "elliptical_overlap \<Rightarrow> flt \<Rightarrow> flt \<Rightarrow> flt \<Rightarrow> overlap_grid" where
  "elliptical_grid elliptical_overlap_grid a b theta =
     (\<lambda>xa xb ya yb nx ny use_exact sp.
        elliptical_overlap_grid xa xb ya yb nx ny a b theta use_exact sp)"

definition do_circular_photometry ::
  "circular_overlap \<Rightarrow> arr2 \<Rightarrow> position list \<Rightarrow> extents \<Rightarrow> flt \<Rightarrow> arr2 option \<Rightarrow> arr2 option
     \<Rightarrow> bool \<Rightarrow> string \<Rightarrow> int \<Rightarrow> phot_result run" where
  "do_circular_photometry circular_overlap_grid data positions ext radius error gain
      pixelwise_error method subpixels =
     do_photometry (circular_grid circular_overlap_grid radius)
       data positions ext error gain pixelwise_error method subpixels"

definition do_elliptical_photometry ::
  "elliptical_overlap \<Rightarrow> arr2 \<Rightarrow> position list \<Rightarrow> extents \<Rightarrow> flt \<Rightarrow> flt \<Rightarrow> flt
     \<Rightarrow> arr2 option \<Rightarrow> arr2 option \<Rightarrow> bool \<Rightarrow> string \<Rightarrow> int \<Rightarrow> phot_result run" where
  "do_elliptical_photometry elliptical_overlap_grid data positions ext a b theta error gain
      pixelwise_error method subpixels =
     do_photometry (elliptical_grid elliptical_overlap_grid a b theta)
       data positions ext error gain pixelwise_error method subpixels"


section \<open>The annulus composer\<close>

text \<open>
  \<^verbatim>\<open>template.format(*args)\<close> for a template of literal text and numbered fields: a
  field whose number is not below the number of arguments raises IndexError.
\<close>

datatype format_piece = Lit string | Field nat

fun py_format :: "format_piece list \<Rightarrow> string list \<Rightarrow> error + string" where
  "py_format [] args = Inr []"
| "py_format (Lit s # ps) args = bindE (py_format ps args) (\<lambda>r. Inr (s @ r))"
| "py_format (Field k # ps) args =
     (if k < length args then bindE (py_format ps args) (\<lambda>r. Inr (args ! k @ r))
      else Inl FormatIndexOutOfRange)"

text \<open>
  The calls \<^verbatim>\<open>do_circular_photometry(data, positions, extents, *params, error=..., ...)\<close>:
  the parameter tuple has to fill exactly the positional shape parameters, or the call
  raises TypeError.
\<close>

definition call_circular ::
  "circular_overlap \<Rightarrow> arr2 \<Rightarrow> position list \<Rightarrow> extents \<Rightarrow> flt list \<Rightarrow> arr2 option
     \<Rightarrow> arr2 option \<Rightarrow> bool \<Rightarrow> string \<Rightarrow> int \<Rightarrow> phot_result run" where
  "call_circular cgrid data positions ext params error gain pixelwise_error method subpixels =
     (case params of
        [radius] \<Rightarrow> do_circular_photometry cgrid data positions ext radius error gain
                      pixelwise_error method subpixels
      | _ \<Rightarrow> ([], Inl BadArguments))"

definition call_elliptical ::
  "elliptical_overlap \<Rightarrow> arr2 \<Rightarrow> position list \<Rightarrow> extents \<Rightarrow> flt list \<Rightarrow> arr2 option
     \<Rightarrow> arr2 option \<Rightarrow> bool \<Rightarrow> string \<Rightarrow> int \<Rightarrow> phot_result run" where
  "call_elliptical egrid data positions ext params error gain pixelwise_error method subpixels =
     (case params of
        [a, b, theta] \<Rightarrow> do_elliptical_photometry egrid data positions ext a b theta error
                           gain pixelwise_error method subpixels
      | _ \<Rightarrow> ([], Inl BadArguments))"

text \<open>\<^verbatim>\<open>flux, fluxerr = result\<close>: a tuple of one element cannot be unpacked into two.\<close>

definition unpack2 :: "phot_result run \<Rightarrow> (flt list \<times> flt list) run" where
  "unpack2 m =
     bindW m (\<lambda>r. case r of
                    Tuple2 flux fluxerr \<Rightarrow> ([], Inr (flux, fluxerr))
                  | Tuple1 flux \<Rightarrow> ([], Inl NotEnoughValuesToUnpack))"

text \<open>\<^verbatim>\<open>result[0]\<close>.\<close>

fun tuple0 :: "phot_result \<Rightarrow> flt list" where
  "tuple0 (Tuple1 flux) = flux"
| "tuple0 (Tuple2 flux fluxerr) = flux"

text \<open>
  Element-wise operations on the result arrays, which all have the length of
  \<^verbatim>\<open>positions\<close>.
\<close>

definition vsub :: "flt list \<Rightarrow> flt list \<Rightarrow> flt list" where
  "vsub xs ys = map (\<lambda>(x, y). fsub x y) (zip xs ys)"

definition annulus_fluxvar :: "flt list \<Rightarrow> flt list \<Rightarrow> flt list" where
  "annulus_fluxvar fluxerr_o fluxerr_i =
     map (\<lambda>v. fmax v (Fin 0)) (vsub (map fsq fluxerr_o) (map fsq fluxerr_i))"

text \<open>
  \<^verbatim>\<open>raise ValueError('{0} mode is not supported for annular photometry{1}'.format(mode))\<close>:
  the message is formatted before the exception is built.
\<close>

definition raise_unsupported_mode :: "string \<Rightarrow> error + 'a" where
  "raise_unsupported_mode mode =
     bindE (py_format [Field 0, Lit '' mode is not supported for annular photometry'',
                       Field 1] [mode])
       (\<lambda>msg. Inl (UnsupportedMode msg))"

text \<open>
  \<^verbatim>\<open>do_annulus_photometry\<close>. The final \<^verbatim>\<open>if error is None\<close> of lines 240 to 245 makes
  the test of the branches again, so each branch below ends with its return.
\<close>

definition do_annulus_photometry ::
  "circular_overlap \<Rightarrow> elliptical_overlap \<Rightarrow> arr2 \<Rightarrow> position list \<Rightarrow> string \<Rightarrow> extents
     \<Rightarrow> flt list \<Rightarrow> flt list \<Rightarrow> arr2 option \<Rightarrow> arr2 option \<Rightarrow> bool \<Rightarrow> string \<Rightarrow> int
     \<Rightarrow> phot_result run" where
  "do_annulus_photometry cgrid egrid data positions mode ext inner_params outer_params
      error gain pixelwise_error method subpixels =
     (if mode = ''circular'' then
        (case error of
           None \<Rightarrow>
             bindW (call_circular cgrid data positions ext outer_params error gain
                      pixelwise_error method subpixels) (\<lambda>flux_outer.
             bindW (call_circular cgrid data positions ext inner_params error gain
                      pixelwise_error method subpixels) (\<lambda>flux_inner.
               ([], Inr (Tuple1 (vsub (tuple0 flux_outer) (tuple0 flux_inner))))))
         | Some err \<Rightarrow>
             bindW (unpack2 (call_circular cgrid data positions ext outer_params error gain
                      pixelwise_error method subpixels)) (\<lambda>(flux_outer, fluxerr_o).
             bindW (unpack2 (call_circular cgrid data positions ext inner_params error gain
                      pixelwise_error method subpixels)) (\<lambda>(flux_inner, fluxerr_i).
               ([], Inr (Tuple2 (vsub flux_outer flux_inner)
                           (map fsqrt (annulus_fluxvar fluxerr_o fluxerr_i)))))))
      else if mode = ''elliptical'' then
        (case error of
           None \<Rightarrow>
             bindW (call_elliptical egrid data positions ext inner_params error gain
                      pixelwise_error method subpixels) (\<lambda>flux_inner.
             bindW (call_elliptical egrid data positions ext outer_params error gain
                      pixelwise_error method subpixels) (\<lambda>flux_outer.
               ([], Inr (Tuple1 (vsub (tuple0 flux_outer) (tuple0 flux_inner))))))
         | Some err \<Rightarrow>
             bindW (unpack2 (call_elliptical egrid data positions ext inner_params error gain
                      pixelwise_error method subpixels)) (\<lambda>(flux_inner, fluxerr_i).
             bindW (unpack2 (call_elliptical egrid data positions ext outer_params error gain
                      pixelwise_error method subpixels)) (\<lambda>(flux_outer, fluxerr_o).
               ([], Inr (Tuple2 (vsub flux_outer flux_inner)
                           (map fsqrt (annulus_fluxvar fluxerr_o fluxerr_i)))))))
      else ([], raise_unsupported_mode mode))"



section \<open>Notions used in the statements\<close>

text \<open>
  The flux that the loop body computes for position \<open>i\<close> (lines 87 to 94):
  \<^verbatim>\<open>np.sum(data[y_min[i]:y_max[i], x_min[i]:x_max[i]] * fraction)\<close>.
\<close>

definition position_flux ::
  "overlap_grid \<Rightarrow> arr2 \<Rightarrow> extents \<Rightarrow> int \<Rightarrow> int \<Rightarrow> nat \<Rightarrow> error + flt" where
  "position_flux grid data ext use_exact subpixels i =
     bindE (fraction_at grid ext use_exact subpixels i) (\<lambda>fraction.
     bindE (data_window data ext i) (\<lambda>win.
     bindE (bop fmul win fraction) (\<lambda>weighted. Inr (asum weighted))))"

text \<open>
  All that the loop body computes for position \<open>i\<close>: the flux and, when an error map is
  given, the variance of \<^verbatim>\<open>find_fluxvar\<close>.
\<close>

definition measure_position ::
  "overlap_grid \<Rightarrow> arr2 \<Rightarrow> extents \<Rightarrow> arr2 option \<Rightarrow> arr2 option \<Rightarrow> bool \<Rightarrow> int \<Rightarrow> int
     \<Rightarrow> nat \<Rightarrow> error + flt \<times> flt option" where
  "measure_position grid data ext error gain pixelwise_error use_exact subpixels i =
     bindE (fraction_at grid ext use_exact subpixels i) (\<lambda>fraction.
     bindE (data_window data ext i) (\<lambda>win.
     bindE (bop fmul win fraction) (\<lambda>weighted.
       case error of
         None \<Rightarrow> Inr (asum weighted, None)
       | Some err \<Rightarrow>
           bindE (fluxvar_at data fraction err (asum weighted) gain ext pixelwise_error i)
             (\<lambda>v. Inr (asum weighted, Some v)))))"

text \<open>
  The single-aperture call that \<^verbatim>\<open>do_annulus_photometry\<close> makes with one parameter
  tuple when the mode is \<^verbatim>\<open>'circular'\<close>, and the one it makes otherwise.
\<close>

definition single_aperture ::
  "circular_overlap \<Rightarrow> elliptical_overlap \<Rightarrow> string \<Rightarrow> arr2 \<Rightarrow> position list \<Rightarrow> extents
     \<Rightarrow> flt list \<Rightarrow> arr2 option \<Rightarrow> arr2 option \<Rightarrow> bool \<Rightarrow> string \<Rightarrow> int \<Rightarrow> phot_result run" where
  "single_aperture cgrid egrid mode data positions ext params error gain pixelwise_error
      method subpixels =
     (if mode = ''circular''
      then call_circular cgrid data positions ext params error gain pixelwise_error
             method subpixels
      else call_elliptical egrid data positions ext params error gain pixelwise_error
             method subpixels)"

text \<open>The positions that the warning names.\<close>

definition flagged :: "position list \<Rightarrow> bool list \<Rightarrow> position list" where
  "flagged positions flags = map fst (filter snd (zip positions flags))"





section \<open>Example inputs\<close>

text \<open>An array of the given shape with the same value in every cell.\<close>

definition uniform :: "nat \<Rightarrow> nat \<Rightarrow> real \<Rightarrow> arr2" where
  "uniform r c v = \<lparr>nrows = r, ncols = c, cell = (\<lambda>i j. Fin v)\<rparr>"

text \<open>
  Overlap functions for the examples: every pixel of the window is fully covered, so the
  grid of \<open>ny\<close> rows and \<open>nx\<close> columns holds \<open>1\<close> everywhere.
\<close>

definition full_circular :: circular_overlap where
  "full_circular xa xb ya yb nx ny radius use_exact subpixels = uniform (nat ny) (nat nx) 1"

text \<open>
  An overlap function that depends on the radius: full coverage for the radius \<open>2\<close>, a
  quarter of every pixel for any other radius.
\<close>

definition quarter_circular :: circular_overlap where
  "quarter_circular xa xb ya yb nx ny radius use_exact subpixels =
     uniform (nat ny) (nat nx) (if radius = Fin 2 then 1 else 1 / 4)"

definition full_elliptical :: elliptical_overlap where
  "full_elliptical xa xb ya yb nx ny a b theta use_exact subpixels =
     uniform (nat ny) (nat nx) 1"

text \<open>
  Extents on an image of two rows and two columns. \<open>no_positions\<close> is the bundle of an
  empty position list, \<open>one_inside\<close> has one position whose window is the whole image,
  \<open>one_outside\<close> has one position outside the data, and \<open>inside_outside\<close> has a
  position on the image followed by one outside it.
\<close>

definition no_positions :: extents where
  "no_positions = \<lparr>ood_filter = [], pixel_extent = ([], [], [], []),
                    phot_extent = ([], [], [], [])\<rparr>"

definition one_inside :: extents where
  "one_inside = \<lparr>ood_filter = [False], pixel_extent = ([0], [2], [0], [2]),
                  phot_extent = ([Fin (- 1)], [Fin 1], [Fin (- 1)], [Fin 1])\<rparr>"

definition one_outside :: extents where
  "one_outside = \<lparr>ood_filter = [True], pixel_extent = ([0], [0], [0], [0]),
                   phot_extent = ([Fin 9], [Fin 11], [Fin 9], [Fin 11])\<rparr>"

definition inside_outside :: extents where
  "inside_outside = \<lparr>ood_filter = [False, True], pixel_extent = ([0, 0], [2, 0], [0, 0], [2, 0]),
                      phot_extent = ([Fin (- 1), Fin 9], [Fin 1, Fin 11],
                                     [Fin (- 1), Fin 9], [Fin 1, Fin 11])\<rparr>"


text \<open>
  \<open>edge_outside\<close> has a position on the last pixel of that image, with a window of one
  row and one column (an aperture of radius \<open>0.4\<close> centred on the pixel), followed by a
  position outside the data.
\<close>

definition edge_outside :: extents where
  "edge_outside = \<lparr>ood_filter = [False, True], pixel_extent = ([1, 0], [2, 0], [1, 0], [2, 0]),
                    phot_extent = ([Fin (- 1 / 2), Fin 9], [Fin (1 / 2), Fin 11],
                                   [Fin (- 1 / 2), Fin 9], [Fin (1 / 2), Fin 11])\<rparr>"

text \<open>
  An error map of three rows and three columns that holds \<open>1\<close> in its first cell and \<open>5\<close>
  in every other cell.
\<close>

definition marked_corner :: arr2 where
  "marked_corner = \<lparr>nrows = 3, ncols = 3,
                     cell = (\<lambda>i j. if i = 0 \<and> j = 0 then Fin 1 else Fin 5)\<rparr>"


section \<open>The method string and the overlap function\<close>






section \<open>The loop over the positions\<close>

lemma photometry_step_measure:
  "photometry_step grid data ext error gain pw ue sp i (flux, fluxvar) =
     (if i < length flux then
        if isnan (flux ! i) then Inr (flux, fluxvar)
        else bindE (measure_position grid data ext error gain pw ue sp i)
               (\<lambda>(f, v). Inr (flux[i := f],
                               case v of None \<Rightarrow> fluxvar | Some v' \<Rightarrow> fluxvar[i := v']))
      else Inl SubscriptOutOfRange)"
  by (simp add: photometry_step_def measure_position_def bindE_def item_def
           split: sum.splits option.splits)

lemma photometry_step_length:
  assumes "photometry_step grid data ext error gain pw ue sp i (flux, fluxvar) = Inr (flux', fluxvar')"
  shows "length flux' = length flux \<and> length fluxvar' = length fluxvar"
  using assms
  by (auto simp: photometry_step_measure bindE_def split: if_splits sum.splits option.splits prod.splits)

lemma photometry_loop_length:
  assumes "photometry_loop (photometry_step grid data ext error gain pw ue sp) idx (flux, fluxvar)
             = Inr (flux', fluxvar')"
  shows "length flux' = length flux \<and> length fluxvar' = length fluxvar"
  using assms
proof (induction idx arbitrary: flux fluxvar)
  case Nil
  then show ?case by simp
next
  case (Cons i idx)
  then obtain f1 v1 where
    s: "photometry_step grid data ext error gain pw ue sp i (flux, fluxvar) = Inr (f1, v1)"
    and l: "photometry_loop (photometry_step grid data ext error gain pw ue sp) idx (f1, v1)
             = Inr (flux', fluxvar')"
    by (auto split: sum.splits)
  from Cons.IH [OF l] photometry_step_length [OF s] show ?case by simp
qed

lemma photometry_loop_flux:
  assumes "distinct idx"
    and "\<forall>i \<in> set idx. i < length flux"
    and "\<forall>i \<in> set idx. \<not> isnan (flux ! i) \<longrightarrow>
           (\<exists>v. measure_position grid data ext error gain pw ue sp i = Inr (fl i, v))"
  shows "\<exists>flux' fluxvar'.
           photometry_loop (photometry_step grid data ext error gain pw ue sp) idx (flux, fluxvar)
             = Inr (flux', fluxvar') \<and>
           length flux' = length flux \<and> length fluxvar' = length fluxvar \<and>
           (\<forall>j < length flux. flux' ! j =
              (if j \<in> set idx \<and> \<not> isnan (flux ! j) then fl j else flux ! j))"
  using assms
proof (induction idx arbitrary: flux fluxvar)
  case Nil
  then show ?case by simp
next
  case (Cons i idx)
  have i: "i < length flux" and ni: "i \<notin> set idx" and d: "distinct idx"
    using Cons.prems by auto
  obtain f1 v1 where
    s: "photometry_step grid data ext error gain pw ue sp i (flux, fluxvar) = Inr (f1, v1)"
    and f1: "f1 = (if isnan (flux ! i) then flux else flux[i := fl i])"
    and v1: "length v1 = length fluxvar"
  proof (cases "isnan (flux ! i)")
    case True
    then show ?thesis using that i by (simp add: photometry_step_measure)
  next
    case False
    then obtain v where "measure_position grid data ext error gain pw ue sp i = Inr (fl i, v)"
      using Cons.prems(3) by auto
    then show ?thesis using that i False
      by (simp add: photometry_step_measure bindE_def split: option.splits)
  qed
  have len1: "length f1 = length flux" by (simp add: f1)
  have same: "\<And>j. j \<noteq> i \<Longrightarrow> f1 ! j = flux ! j" by (simp add: f1)
  have p2: "\<forall>j \<in> set idx. j < length f1" using Cons.prems(2) len1 by simp
  have p3: "\<forall>j \<in> set idx. \<not> isnan (f1 ! j) \<longrightarrow>
           (\<exists>v. measure_position grid data ext error gain pw ue sp j = Inr (fl j, v))"
    using Cons.prems(3) same ni by (metis list.set_intros(2))
  from Cons.IH [OF d p2 p3, of v1] obtain flux' fluxvar' where
    l: "photometry_loop (photometry_step grid data ext error gain pw ue sp) idx (f1, v1)
          = Inr (flux', fluxvar')"
    and ll: "length flux' = length f1" "length fluxvar' = length v1"
    and vals: "\<forall>j < length f1. flux' ! j =
              (if j \<in> set idx \<and> \<not> isnan (f1 ! j) then fl j else f1 ! j)"
    by blast
  have "\<forall>j < length flux. flux' ! j =
          (if j \<in> set (i # idx) \<and> \<not> isnan (flux ! j) then fl j else flux ! j)"
  proof (intro allI impI)
    fix j assume j: "j < length flux"
    show "flux' ! j = (if j \<in> set (i # idx) \<and> \<not> isnan (flux ! j) then fl j else flux ! j)"
    proof (cases "j = i")
      case True
      then show ?thesis using vals j len1 ni i by (simp add: f1)
    next
      case False
      then show ?thesis using vals j len1 same by simp
    qed
  qed
  then show ?case using s l ll len1 v1 by simp
qed



section \<open>The positions outside the data\<close>

lemma count_true_le: "count_true fs \<le> length fs"
  by (simp add: count_true_def)

lemma count_true_all: "(count_true fs = length fs) = (\<forall>b \<in> set fs. b)"
proof (induction fs)
  case Nil
  then show ?case by (simp add: count_true_def)
next
  case (Cons b fs)
  show ?case
  proof (cases b)
    case True
    with Cons show ?thesis by (simp add: count_true_def)
  next
    case False
    have "count_true (b # fs) = count_true fs" using False by (simp add: count_true_def)
    with count_true_le [of fs] have "count_true (b # fs) \<noteq> length (b # fs)" by simp
    with False show ?thesis by simp
  qed
qed

lemma count_true_zero: "(count_true fs = 0) = (\<forall>b \<in> set fs. \<not> b)"
  by (induction fs) (auto simp: count_true_def)

lemma mask_assign_nth:
  assumes "length fs = length xs"
  shows "\<exists>ys. mask_assign xs fs v = Inr ys \<and> length ys = length xs \<and>
           (\<forall>i < length xs. ys ! i = (if fs ! i then v else xs ! i))"
  using assms by (simp add: mask_assign_def)

lemma flagged_all: "length fs = length ps \<Longrightarrow> \<forall>b \<in> set fs. b \<Longrightarrow> flagged ps fs = ps"
proof (induction ps arbitrary: fs)
  case Nil
  then show ?case by (simp add: flagged_def)
next
  case (Cons p ps)
  then obtain b fs' where fs: "fs = b # fs'" by (cases fs) auto
  from Cons.prems fs have "length fs' = length ps" and "\<forall>b \<in> set fs'. b" and b by auto
  with Cons.IH [of fs'] fs show ?case by (simp add: flagged_def)
qed

lemma mask_assign_all:
  assumes len: "length fs = n" and all: "\<forall>b \<in> set fs. b"
  shows "mask_assign (replicate n x) fs v = Inr (replicate n v)"
proof -
  have "map (\<lambda>(x, m). if m then v else x) (zip (replicate n x) fs) = replicate n v"
  proof (rule nth_equalityI)
    show "length (map (\<lambda>(x, m). if m then v else x) (zip (replicate n x) fs)) = length (replicate n v)"
      using len by simp
  next
    fix i assume "i < length (map (\<lambda>(x, m). if m then v else x) (zip (replicate n x) fs))"
    then have i: "i < n" using len by simp
    then have "fs ! i" using all len by (metis nth_mem)
    then show "map (\<lambda>(x, m). if m then v else x) (zip (replicate n x) fs) ! i = replicate n v ! i"
      using i len by simp
  qed
  then show ?thesis using len by (simp add: mask_assign_def)
qed

lemma do_photometry_all_flagged:
  assumes ne: "positions \<noteq> []"
    and len: "length (ood_filter ext) = length positions"
    and all: "\<forall>b \<in> set (ood_filter ext). b"
  shows "do_photometry grid data positions ext error gain pw method subpixels =
           ([NoOverlapWarning positions], Inr (Tuple1 (replicate (length positions) NaN)))"
proof -
  have c: "count_true (ood_filter ext) = length positions"
    using count_true_all [of "ood_filter ext"] all len by simp
  have m: "mask_assign (replicate (length positions) (Fin 0)) (ood_filter ext) NaN
             = Inr (replicate (length positions) NaN)"
    by (rule mask_assign_all [OF len all])
  have s: "mask_select positions (ood_filter ext) = Inr positions"
    using flagged_all [OF len all] len by (simp add: mask_select_def flagged_def)
  show ?thesis
    by (simp add: do_photometry_def Let_def c m s ne)
qed


section \<open>What a single-aperture call returns\<close>

lemma photometry_main_length:
  assumes "photometry_main grid data ext error gain pw method subpixels flux fluxvar = Inr r"
  shows "length (tuple0 r) = length flux \<and>
         (case r of Tuple1 f \<Rightarrow> error = None | Tuple2 f e \<Rightarrow> length e = length fluxvar \<and> error \<noteq> None)"
proof -
  obtain ue sp where rm: "resolve_method method subpixels = (ue, sp)"
    by (cases "resolve_method method subpixels")
  from assms obtain flux' fluxvar' where
    l: "photometry_loop (photometry_step grid data ext error gain pw ue sp)
          [0..<length flux] (flux, fluxvar) = Inr (flux', fluxvar')"
    and r: "r = (case error of None \<Rightarrow> Tuple1 flux' | Some err \<Rightarrow> Tuple2 flux' (map fsqrt fluxvar'))"
    unfolding photometry_main_def rm bindE_def
    by (auto split: sum.splits option.splits)
  from photometry_loop_length [OF l] r show ?thesis
    by (cases error) simp_all
qed

lemma do_photometry_cases:
  assumes "snd (do_photometry grid data positions ext error gain pw method subpixels) = Inr r"
  shows "(r = Tuple1 (map (\<lambda>(x, m). if m then NaN else x)
                 (zip (replicate (length positions) (Fin 0)) (ood_filter ext))) \<and>
          length (ood_filter ext) = length positions \<and>
          count_true (ood_filter ext) = length positions \<and> positions \<noteq> []) \<or>
         (\<exists>flux. length flux = length positions \<and>
            photometry_main grid data ext error gain pw method subpixels flux
              (case error of None \<Rightarrow> [] | Some err \<Rightarrow> replicate (length positions) (Fin 0))
              = Inr r)"
proof (cases "count_true (ood_filter ext) \<noteq> 0")
  case False
  then show ?thesis using assms unfolding do_photometry_def Let_def
    by (intro disjI2 exI [of _ "replicate (length positions) (Fin 0)"]) simp
next
  case True
  show ?thesis
  proof (cases "length (ood_filter ext) = length positions")
    case False
    then show ?thesis using assms True unfolding do_photometry_def Let_def
      by (simp add: mask_assign_def)
  next
    case len: True
    show ?thesis
    proof (cases "count_true (ood_filter ext) = length positions")
      case True
      then show ?thesis using assms len \<open>count_true (ood_filter ext) \<noteq> 0\<close>
        unfolding do_photometry_def Let_def
        by (auto simp: mask_assign_def mask_select_def)
    next
      case False
      then show ?thesis using assms len \<open>count_true (ood_filter ext) \<noteq> 0\<close>
        unfolding do_photometry_def Let_def
        by (intro disjI2 exI [of _ "map (\<lambda>(x, m). if m then NaN else x)
                 (zip (replicate (length positions) (Fin 0)) (ood_filter ext))"])
           (simp add: mask_assign_def mask_select_def)
    qed
  qed
qed

lemma do_photometry_length:
  assumes "snd (do_photometry grid data positions ext error gain pw method subpixels) = Inr r"
  shows "length (tuple0 r) = length positions \<and>
         (case r of Tuple1 f \<Rightarrow> True | Tuple2 f e \<Rightarrow> length e = length positions \<and> error \<noteq> None)"
  using do_photometry_cases [OF assms]
proof (elim disjE exE conjE)
  assume "r = Tuple1 (map (\<lambda>(x, m). if m then NaN else x)
                 (zip (replicate (length positions) (Fin 0)) (ood_filter ext)))"
    and "length (ood_filter ext) = length positions"
  then show ?thesis by simp
next
  fix flux
  assume l: "length flux = length positions"
    and m: "photometry_main grid data ext error gain pw method subpixels flux
              (case error of None \<Rightarrow> [] | Some err \<Rightarrow> replicate (length positions) (Fin 0))
              = Inr r"
  from photometry_main_length [OF m] l show ?thesis
    by (cases r; cases error) simp_all
qed

lemma measure_position_flux:
  assumes "measure_position grid data ext error gain pw ue sp i = Inr (f, v)"
  shows "position_flux grid data ext ue sp i = Inr f"
  using assms unfolding measure_position_def position_flux_def bindE_def
  by (auto split: sum.splits option.splits)

lemma masked_flux_nth:
  assumes "length fs = n" and "i < n"
  shows "map (\<lambda>(x, m). if m then NaN else x) (zip (replicate n (Fin 0)) fs) ! i
           = (if fs ! i then NaN else Fin 0)"
  using assms by simp

lemma masked_flux_none:
  assumes "length fs = n" and "count_true fs = 0"
  shows "map (\<lambda>(x, m). if m then NaN else x) (zip (replicate n (Fin 0)) fs) = replicate n (Fin 0)"
proof (rule nth_equalityI)
  show "length (map (\<lambda>(x, m). if m then NaN else x) (zip (replicate n (Fin 0)) fs))
          = length (replicate n (Fin 0))"
    using assms by simp
next
  fix i assume "i < length (map (\<lambda>(x, m). if m then NaN else x) (zip (replicate n (Fin 0)) fs))"
  then have i: "i < n" using assms by simp
  then have "\<not> fs ! i" using assms count_true_zero [of fs] by (metis nth_mem)
  then show "map (\<lambda>(x, m). if m then NaN else x) (zip (replicate n (Fin 0)) fs) ! i
               = replicate n (Fin 0) ! i"
    using i assms by simp
qed

lemma do_photometry_unfold:
  assumes len: "length (ood_filter ext) = length positions"
    and notall: "count_true (ood_filter ext) \<noteq> length positions"
  shows "do_photometry grid data positions ext error gain pw method subpixels =
           (if count_true (ood_filter ext) = 0 then []
            else [NoOverlapWarning (flagged positions (ood_filter ext))],
            photometry_main grid data ext error gain pw method subpixels
              (map (\<lambda>(x, m). if m then NaN else x)
                 (zip (replicate (length positions) (Fin 0)) (ood_filter ext)))
              (case error of None \<Rightarrow> [] | Some err \<Rightarrow> replicate (length positions) (Fin 0)))"
proof (cases "count_true (ood_filter ext) = 0")
  case True
  then show ?thesis
    by (simp add: do_photometry_def Let_def masked_flux_none [OF len True])
next
  case False
  then show ?thesis using len notall
    by (simp add: do_photometry_def Let_def mask_assign_def mask_select_def flagged_def)
qed

lemma photometry_main_measured:
  assumes lf: "length flux = n"
    and res: "resolve_method method subpixels = (ue, sp)"
    and ok: "\<forall>i < n. \<not> isnan (flux ! i) \<longrightarrow>
               (\<exists>m. measure_position grid data ext error gain pw ue sp i = Inr m)"
  shows "\<exists>r. photometry_main grid data ext error gain pw method subpixels flux fluxvar = Inr r \<and>
           length (tuple0 r) = n \<and>
           (\<forall>i < n. if isnan (flux ! i) then tuple0 r ! i = flux ! i
                    else position_flux grid data ext ue sp i = Inr (tuple0 r ! i)) \<and>
           (case r of Tuple1 f \<Rightarrow> error = None
            | Tuple2 f e \<Rightarrow> error \<noteq> None \<and> length e = length fluxvar)"
proof -
  define fl where
    "fl i = (case measure_position grid data ext error gain pw ue sp i of
               Inr m \<Rightarrow> fst m | Inl e \<Rightarrow> NaN)" for i
  have p3: "\<forall>i \<in> set [0..<length flux]. \<not> isnan (flux ! i) \<longrightarrow>
           (\<exists>v. measure_position grid data ext error gain pw ue sp i = Inr (fl i, v))"
  proof (intro ballI impI)
    fix i assume "i \<in> set [0..<length flux]" and nn: "\<not> isnan (flux ! i)"
    then have "i < n" using lf by simp
    with ok nn obtain m where "measure_position grid data ext error gain pw ue sp i = Inr m"
      by blast
    then show "\<exists>v. measure_position grid data ext error gain pw ue sp i = Inr (fl i, v)"
      by (cases m) (simp add: fl_def)
  qed
  have p1: "distinct [0..<length flux]" by simp
  have p2: "\<forall>i \<in> set [0..<length flux]. i < length flux" by simp
  from photometry_loop_flux [OF p1 p2 p3, of fluxvar] obtain flux' fluxvar' where
    l: "photometry_loop (photometry_step grid data ext error gain pw ue sp)
          [0..<length flux] (flux, fluxvar) = Inr (flux', fluxvar')"
    and ll: "length flux' = length flux" "length fluxvar' = length fluxvar"
    and vals: "\<forall>j < length flux. flux' ! j =
                 (if j \<in> set [0..<length flux] \<and> \<not> isnan (flux ! j) then fl j else flux ! j)"
    by blast
  define r where
    "r = (case error of None \<Rightarrow> Tuple1 flux' | Some err \<Rightarrow> Tuple2 flux' (map fsqrt fluxvar'))"
  have run: "photometry_main grid data ext error gain pw method subpixels flux fluxvar = Inr r"
    unfolding photometry_main_def res r_def by (simp add: l bindE_def split: option.splits)
  have t0: "tuple0 r = flux'" by (cases error) (simp_all add: r_def)
  have shape: "case r of Tuple1 f \<Rightarrow> error = None
                | Tuple2 f e \<Rightarrow> error \<noteq> None \<and> length e = length fluxvar"
    by (cases error) (simp_all add: r_def ll)
  have each: "\<forall>i < n. if isnan (flux ! i) then tuple0 r ! i = flux ! i
                    else position_flux grid data ext ue sp i = Inr (tuple0 r ! i)"
  proof (intro allI impI)
    fix i assume i: "i < n"
    show "if isnan (flux ! i) then tuple0 r ! i = flux ! i
          else position_flux grid data ext ue sp i = Inr (tuple0 r ! i)"
    proof (cases "isnan (flux ! i)")
      case True
      then show ?thesis using vals i lf t0 by simp
    next
      case False
      have "i \<in> set [0..<length flux]" using i lf by simp
      with p3 False obtain v where
        "measure_position grid data ext error gain pw ue sp i = Inr (fl i, v)" by blast
      from measure_position_flux [OF this] have "position_flux grid data ext ue sp i = Inr (fl i)" .
      moreover have "flux' ! i = fl i" using vals i lf False by simp
      ultimately show ?thesis using False t0 by simp
    qed
  qed
  show ?thesis using run t0 ll lf shape each by (intro exI [of _ r]) simp
qed


section \<open>Claims on the method string\<close>










section \<open>Evaluation on concrete inputs\<close>

text \<open>
  The definitions that evaluate the model on a concrete input.
\<close>

lemmas array_defs =
  uniform_def window_def slice_bound_def axis_index_def subscript_def bdim_def bidx_def
  bop_def iadd_def amap_def cells_def asum_def bindE_def

lemmas photometry_defs =
  do_circular_photometry_def do_elliptical_photometry_def do_photometry_def
  photometry_main_def photometry_step_def fraction_at_def data_window_def fluxvar_at_def
  resolve_method_def circular_grid_def elliptical_grid_def full_circular_def
  quarter_circular_def full_elliptical_def item_def count_true_def mask_assign_def mask_select_def
  no_positions_def one_inside_def one_outside_def inside_outside_def

lemma center_index_0_2: "center_index 0 2 = 1"
  by (simp add: center_index_def py_int_def)

lemma upt2: "[0..<2] = [0, 1]"
  by (simp add: upt_rec)

lemma asum_uniform_2_2: "asum (uniform 2 2 v) = Fin (4 * v)"
  by (simp add: asum_def cells_def uniform_def upt2)

lemma center_index_1_2: "center_index 1 2 = 2"
  by (simp add: center_index_def py_int_def)

lemma asum_uniform_1_1: "asum (uniform (Suc 0) (Suc 0) v) = Fin v"
  by (simp add: asum_def cells_def uniform_def)

lemmas edge_defs =
  photometry_defs array_defs edge_outside_def find_fluxvar_def fsq_def

lemma snd_bindW:
  "snd (bindW m f) = (case snd m of Inl e \<Rightarrow> Inl e | Inr x \<Rightarrow> snd (f x))"
  by (cases m) (simp add: bindW_def split: sum.splits prod.splits)

lemma all_nth_set:
  assumes "length fs = n" and "\<forall>i < n. fs ! i"
  shows "\<forall>b \<in> set fs. b"
  using assms by (auto simp: in_set_conv_nth)


section \<open>Claim on the sign of the variance\<close>

text \<open>
  Claim C2 says that every variance computed by \<^verbatim>\<open>find_fluxvar\<close> is non-negative, also
  in aggregate mode with a gain. The code clamps before it adds \<^verbatim>\<open>flux / local_gain\<close>
  (lines 35 to 40), while the pixelwise branch clamps after the gain term (line 28). On
  an image of two rows and two columns with data \<open>-1\<close>, error \<open>0\<close>, gain \<open>1\<close> and full
  overlap, the flux is \<open>-4\<close>, \<^verbatim>\<open>find_fluxvar\<close> returns the variance \<open>-4\<close>, and
  \<^verbatim>\<open>do_circular_photometry\<close> returns NaN as the flux error.
\<close>

theorem negative_aggregate_variance:
  "find_fluxvar (uniform 2 2 (- 1)) (uniform 2 2 1) (uniform 2 2 0) (Fin (- 4))
     (Some (uniform 2 2 1)) 0 2 0 2 False = Inr (Fin (- 4)) \<and>
   \<not> nonneg (Fin (- 4)) \<and>
   do_circular_photometry full_circular (uniform 2 2 (- 1)) [(Fin 1, Fin 1)] one_inside (Fin 1)
     (Some (uniform 2 2 0)) (Some (uniform 2 2 1)) False ''exact'' 5
   = ([], Inr (Tuple2 [Fin (- 4)] [NaN]))"
proof -
  have a: "find_fluxvar (uniform 2 2 (- 1)) (uniform 2 2 1) (uniform 2 2 0) (Fin (- 4))
     (Some (uniform 2 2 1)) 0 2 0 2 False = Inr (Fin (- 4))"
    by (simp add: find_fluxvar_def center_index_0_2 asum_uniform_2_2 subscript_def
          axis_index_def bindE_def fsq_def)
       (simp add: uniform_def)
  have b: "do_circular_photometry full_circular (uniform 2 2 (- 1)) [(Fin 1, Fin 1)] one_inside
     (Fin 1) (Some (uniform 2 2 0)) (Some (uniform 2 2 1)) False ''exact'' 5
   = ([], Inr (Tuple2 [Fin (- 4)] [NaN]))"
    by (simp add: photometry_defs array_defs find_fluxvar_def center_index_0_2 fsq_def upt2)
  show ?thesis using a b by simp
qed


section \<open>Claim on the unsupported mode\<close>

text \<open>
  The template of line 237 has the fields \<open>0\<close> and \<open>1\<close> and is given one argument.
\<close>

lemma py_format_mode:
  "py_format [Field 0, Lit s, Field 1] [mode] = Inl FormatIndexOutOfRange"
  by (simp add: bindE_def)

text \<open>
  Claim C3 says that a mode outside \<^verbatim>\<open>'circular'\<close> and \<^verbatim>\<open>'elliptical'\<close> raises
  ValueError. The call does raise at once, with no warning and no value returned, but the
  exception is the IndexError of \<^verbatim>\<open>str.format\<close>: the message is formatted before the
  ValueError is built, and the field \<open>1\<close> has no argument.
\<close>

theorem unsupported_mode_raises:
  assumes "mode \<noteq> ''circular''" and "mode \<noteq> ''elliptical''"
  shows "do_annulus_photometry cgrid egrid data positions mode ext inner_params outer_params
           error gain pw method subpixels = ([], Inl FormatIndexOutOfRange) \<and>
         exc_class FormatIndexOutOfRange = IndexError \<and>
         exc_class FormatIndexOutOfRange \<noteq> ValueError"
  using assms
  by (simp add: do_annulus_photometry_def raise_unsupported_mode_def py_format_mode bindE_def)

theorem unsupported_mode_raises_witness:
  "''square'' \<noteq> ''circular'' \<and> ''square'' \<noteq> ''elliptical'' \<and>
   do_annulus_photometry full_circular full_elliptical (uniform 2 2 1) [(Fin 1, Fin 1)]
     ''square'' one_inside [Fin 1] [Fin 2] None None True ''exact'' 5
   = ([], Inl FormatIndexOutOfRange) \<and>
   exc_class FormatIndexOutOfRange = IndexError"
proof -
  have h1: "''square'' \<noteq> ''circular''" and h2: "''square'' \<noteq> ''elliptical''"
    by simp_all
  from unsupported_mode_raises [OF h1 h2, of full_circular full_elliptical "uniform 2 2 1"
         "[(Fin 1, Fin 1)]" one_inside "[Fin 1]" "[Fin 2]" None None True "''exact''" 5] h1 h2
  show ?thesis by blast
qed


section \<open>Claims on the positions outside the data\<close>

text \<open>
  Claim C4, as stated, fails on an empty position list with an error map: all of the
  (zero) positions are flagged, the count of flagged positions equals the number of
  positions, but \<^verbatim>\<open>if np.sum(ood_filter):\<close> is false, and the call returns a tuple of
  two elements.
\<close>

theorem empty_positions_counterexample:
  "count_true (ood_filter no_positions) = length ([] :: position list) \<and>
   length (ood_filter no_positions) = length ([] :: position list) \<and>
   do_circular_photometry full_circular (uniform 2 2 1) [] no_positions (Fin 1)
     (Some (uniform 2 2 1)) None True ''exact'' 5 = ([], Inr (Tuple2 [] []))"
  by (simp add: photometry_defs array_defs)

text \<open>
  Claim C4, amended. When there is at least one position and all positions are flagged
  out of the data, \<^verbatim>\<open>do_circular_photometry\<close> and \<^verbatim>\<open>do_elliptical_photometry\<close> emit the
  warning on all positions and return at once the tuple of one element, the flux that is
  NaN at every position; no flux error is returned, with or without an error map, and
  neither the data nor the overlap function is used.
\<close>

theorem all_flagged_returns_flux_only:
  assumes ne: "positions \<noteq> []"
    and len: "length (ood_filter ext) = length positions"
    and all: "\<forall>i < length positions. ood_filter ext ! i"
  shows "do_circular_photometry cgrid data positions ext radius error gain pw method subpixels =
           ([NoOverlapWarning positions], Inr (Tuple1 (replicate (length positions) NaN))) \<and>
         do_elliptical_photometry egrid data positions ext a b theta error gain pw method
             subpixels =
           ([NoOverlapWarning positions], Inr (Tuple1 (replicate (length positions) NaN)))"
  unfolding do_circular_photometry_def do_elliptical_photometry_def
  using do_photometry_all_flagged [OF ne len all_nth_set [OF len all]]
  by simp

theorem all_flagged_returns_flux_only_witness:
  "[(Fin 10, Fin 10)] \<noteq> ([] :: position list) \<and>
   length (ood_filter one_outside) = length [(Fin 10, Fin 10)] \<and>
   ood_filter one_outside ! 0 \<and>
   do_circular_photometry full_circular (uniform 2 2 1) [(Fin 10, Fin 10)] one_outside (Fin 1)
     (Some (uniform 2 2 1)) None True ''exact'' 5
   = ([NoOverlapWarning [(Fin 10, Fin 10)]], Inr (Tuple1 [NaN])) \<and>
   do_elliptical_photometry full_elliptical (uniform 2 2 1) [(Fin 10, Fin 10)] one_outside
     (Fin 2) (Fin 1) (Fin 0) (Some (uniform 2 2 1)) None True ''exact'' 5
   = ([NoOverlapWarning [(Fin 10, Fin 10)]], Inr (Tuple1 [NaN]))"
proof -
  have h1: "[(Fin 10, Fin 10)] \<noteq> ([] :: position list)" by simp
  have h2: "length (ood_filter one_outside) = length [(Fin 10 :: flt, Fin 10 :: flt)]"
    by (simp add: one_outside_def)
  have h3: "\<forall>i < length [(Fin 10 :: flt, Fin 10 :: flt)]. ood_filter one_outside ! i"
    by (simp add: one_outside_def)
  from all_flagged_returns_flux_only [OF h1 h2 h3, of full_circular "uniform 2 2 1" "Fin 1"
         "Some (uniform 2 2 1)" None True "''exact''" 5 full_elliptical "Fin 2" "Fin 1" "Fin 0"]
    h1 h2 h3
  show ?thesis by simp
qed

text \<open>
  Claim C10, as stated, fails on an empty position list: with an error map and all of
  the (zero) positions flagged, \<^verbatim>\<open>do_annulus_photometry\<close> returns a tuple of two empty
  arrays.
\<close>

theorem annulus_empty_positions_counterexample:
  "count_true (ood_filter no_positions) = length ([] :: position list) \<and>
   do_annulus_photometry full_circular full_elliptical (uniform 2 2 1) [] ''circular''
     no_positions [Fin 1] [Fin 2] (Some (uniform 2 2 1)) None True ''exact'' 5
   = ([], Inr (Tuple2 [] []))"
  by (simp add: do_annulus_photometry_def call_circular_def unpack2_def bindW_def vsub_def
        annulus_fluxvar_def photometry_defs array_defs)

text \<open>
  Claim C10, amended. With an error map, at least one position and all positions flagged
  out of the data, \<^verbatim>\<open>do_annulus_photometry\<close> returns nothing. For a supported mode whose
  first single-aperture call gets a parameter tuple of the right length (the outer one
  for \<^verbatim>\<open>'circular'\<close>, the inner one for \<^verbatim>\<open>'elliptical'\<close>), that call returns a tuple of
  one element and unpacking it into two raises ValueError; a parameter tuple of another
  length raises TypeError, and an unsupported mode raises as in claim C3.
\<close>

theorem annulus_unpacking_fails:
  assumes ne: "positions \<noteq> []"
    and len: "length (ood_filter ext) = length positions"
    and all: "\<forall>i < length positions. ood_filter ext ! i"
    and err: "error = Some err"
  shows "snd (do_annulus_photometry cgrid egrid data positions mode ext inner_params
                outer_params error gain pw method subpixels) =
           Inl (if mode = ''circular''
                then (if length outer_params = 1 then NotEnoughValuesToUnpack else BadArguments)
                else if mode = ''elliptical''
                then (if length inner_params = 3 then NotEnoughValuesToUnpack else BadArguments)
                else FormatIndexOutOfRange) \<and>
         exc_class NotEnoughValuesToUnpack = ValueError"
proof -
  note flagged = do_photometry_all_flagged [OF ne len all_nth_set [OF len all]]
  have c: "snd (unpack2 (call_circular cgrid data positions ext params error gain pw method
                   subpixels)) =
             Inl (if length params = 1 then NotEnoughValuesToUnpack else BadArguments)"
    for params
  proof (cases params)
    case Nil
    then show ?thesis by (simp add: unpack2_def snd_bindW call_circular_def)
  next
    case (Cons r rest)
    then show ?thesis
      by (cases rest)
         (simp_all add: unpack2_def snd_bindW call_circular_def do_circular_photometry_def
            flagged)
  qed
  have e: "snd (unpack2 (call_elliptical egrid data positions ext params error gain pw method
                   subpixels)) =
             Inl (if length params = 3 then NotEnoughValuesToUnpack else BadArguments)"
    for params
  proof -
    have "length params = 3 \<Longrightarrow> \<exists>x y z. params = [x, y, z]"
      by (auto simp: numeral_3_eq_3 length_Suc_conv)
    then consider (three) x y z where "params = [x, y, z]" | (other) "length params \<noteq> 3"
      by blast
    then show ?thesis
    proof cases
      case three
      then show ?thesis
        by (simp add: unpack2_def snd_bindW call_elliptical_def do_elliptical_photometry_def
              flagged)
    next
      case other
      then have "call_elliptical egrid data positions ext params error gain pw method subpixels
                   = ([], Inl BadArguments)"
        by (auto simp: call_elliptical_def split: list.splits)
      with other show ?thesis by (simp add: unpack2_def snd_bindW)
    qed
  qed
  show ?thesis
    using err c [of outer_params] e [of inner_params]
    by (simp add: do_annulus_photometry_def snd_bindW raise_unsupported_mode_def py_format_mode
          bindE_def)
qed

theorem annulus_unpacking_fails_witness:
  "[(Fin 10, Fin 10)] \<noteq> ([] :: position list) \<and>
   length (ood_filter one_outside) = length [(Fin 10, Fin 10)] \<and>
   ood_filter one_outside ! 0 \<and>
   snd (do_annulus_photometry full_circular full_elliptical (uniform 2 2 1) [(Fin 10, Fin 10)]
          ''circular'' one_outside [Fin 1] [Fin 2] (Some (uniform 2 2 1)) None True ''exact'' 5)
     = Inl NotEnoughValuesToUnpack \<and>
   snd (do_annulus_photometry full_circular full_elliptical (uniform 2 2 1) [(Fin 10, Fin 10)]
          ''elliptical'' one_outside [Fin 1, Fin 1, Fin 0] [Fin 2, Fin 2, Fin 0]
          (Some (uniform 2 2 1)) None True ''exact'' 5)
     = Inl NotEnoughValuesToUnpack"
proof -
  have h1: "[(Fin 10, Fin 10)] \<noteq> ([] :: position list)" by simp
  have h2: "length (ood_filter one_outside) = length [(Fin 10 :: flt, Fin 10 :: flt)]"
    by (simp add: one_outside_def)
  have h3: "\<forall>i < length [(Fin 10 :: flt, Fin 10 :: flt)]. ood_filter one_outside ! i"
    by (simp add: one_outside_def)
  have h4: "Some (uniform 2 2 1) = Some (uniform 2 2 1)" by simp
  from annulus_unpacking_fails [OF h1 h2 h3 h4, of full_circular full_elliptical
         "uniform 2 2 1" "''circular''" "[Fin 1]" "[Fin 2]" None True "''exact''" 5]
       annulus_unpacking_fails [OF h1 h2 h3 h4, of full_circular full_elliptical
         "uniform 2 2 1" "''elliptical''" "[Fin 1, Fin 1, Fin 0]" "[Fin 2, Fin 2, Fin 0]" None
         True "''exact''" 5]
    h1 h2 h3
  show ?thesis by simp
qed



section \<open>Claims on the annulus\<close>

text \<open>
  What \<^verbatim>\<open>do_annulus_photometry\<close> returns, from what its two single-aperture calls
  return.
\<close>

lemma snd_unpack2:
  "snd (unpack2 m) =
     (case snd m of
        Inl e \<Rightarrow> Inl e
      | Inr r \<Rightarrow> (case r of Tuple2 f e \<Rightarrow> Inr (f, e)
                            | Tuple1 f \<Rightarrow> Inl NotEnoughValuesToUnpack))"
  by (simp add: unpack2_def snd_bindW split: sum.splits phot_result.splits)

lemma single_aperture_do_photometry:
  assumes "snd (single_aperture cgrid egrid mode data positions ext params error gain pw method
                  subpixels) = Inr r"
  shows "\<exists>grid. snd (do_photometry grid data positions ext error gain pw method subpixels)
           = Inr r"
proof (cases "mode = ''circular''")
  case True
  with assms show ?thesis
    unfolding single_aperture_def call_circular_def do_circular_photometry_def
    by (auto split: list.splits)
next
  case False
  with assms show ?thesis
    unfolding single_aperture_def call_elliptical_def do_elliptical_photometry_def
    by (auto split: list.splits)
qed


lemma annulus_snd:
  assumes mode: "mode = ''circular'' \<or> mode = ''elliptical''"
    and outer: "snd (single_aperture cgrid egrid mode data positions ext outer_params error
                       gain pw method subpixels) = Inr ro"
    and inner: "snd (single_aperture cgrid egrid mode data positions ext inner_params error
                       gain pw method subpixels) = Inr ri"
  shows "snd (do_annulus_photometry cgrid egrid data positions mode ext inner_params
                outer_params error gain pw method subpixels) =
           (case error of
              None \<Rightarrow> Inr (Tuple1 (vsub (tuple0 ro) (tuple0 ri)))
            | Some err \<Rightarrow>
                (case ro of
                   Tuple1 fo \<Rightarrow> Inl NotEnoughValuesToUnpack
                 | Tuple2 fo eo \<Rightarrow>
                     (case ri of
                        Tuple1 fi \<Rightarrow> Inl NotEnoughValuesToUnpack
                      | Tuple2 fi ei \<Rightarrow>
                          Inr (Tuple2 (vsub fo fi) (map fsqrt (annulus_fluxvar eo ei))))))"
proof -
  from mode show ?thesis
  proof
    assume m: "mode = ''circular''"
    with outer inner show ?thesis
      by (cases error; cases ro; cases ri)
         (simp_all add: do_annulus_photometry_def single_aperture_def snd_bindW snd_unpack2)
  next
    assume m: "mode = ''elliptical''"
    with outer inner show ?thesis
      by (cases error; cases ro; cases ri)
         (simp_all add: do_annulus_photometry_def single_aperture_def snd_bindW snd_unpack2)
  qed
qed



lemma annulus_fluxvar_nth:
  assumes "length eo = n" and "length ei = n" and "i < n"
  shows "annulus_fluxvar eo ei ! i = fmax (fsub (fsq (eo ! i)) (fsq (ei ! i))) (Fin 0)"
  using assms by (simp add: annulus_fluxvar_def vsub_def)

lemma annulus_fluxvar_length:
  "length eo = n \<Longrightarrow> length ei = n \<Longrightarrow> length (annulus_fluxvar eo ei) = n"
  by (simp add: annulus_fluxvar_def vsub_def)


text \<open>
  The clamp \<^verbatim>\<open>np.maximum(x, 0)\<close>: on a finite value it is the larger of the value and
  \<open>0\<close>, and its result is never negative.
\<close>

lemma fmax_zero_finite: "fmax (Fin a) (Fin 0) = Fin (max a 0)"
  by simp

lemma fmax_zero_sign: "isnan (fmax x (Fin 0)) \<or> nonneg (fmax x (Fin 0))"
  by (cases x) auto

lemma annulus_fluxvar_finite:
  assumes "length eo = n" and "length ei = n" and "i < n"
    and "eo ! i = Fin a" and "ei ! i = Fin b"
  shows "annulus_fluxvar eo ei ! i = Fin (max (a * a - b * b) 0)"
  using annulus_fluxvar_nth [OF assms(1-3)] assms(4,5)
  by (simp add: fsq_def fsub_def)

text \<open>
  Claim C7. With an error map, the variance of the annulus at every position is
  \<^verbatim>\<open>np.maximum(fluxerr_o ** 2 - fluxerr_i ** 2, 0)\<close> of the flux errors that the outer and
  the inner single-aperture call return, and the second element of the returned tuple is
  its square root. The variance is never negative; for finite flux errors \<open>a\<close> and \<open>b\<close> it
  is the real number \<open>max (a * a - b * b) 0\<close>, and the returned flux error is the square
  root of that number.
\<close>

theorem annulus_variance:
  assumes mode: "mode = ''circular'' \<or> mode = ''elliptical''"
    and err: "error = Some err"
    and outer: "snd (single_aperture cgrid egrid mode data positions ext outer_params error
                       gain pw method subpixels) = Inr (Tuple2 flux_outer fluxerr_o)"
    and inner: "snd (single_aperture cgrid egrid mode data positions ext inner_params error
                       gain pw method subpixels) = Inr (Tuple2 flux_inner fluxerr_i)"
  shows "snd (do_annulus_photometry cgrid egrid data positions mode ext inner_params
                outer_params error gain pw method subpixels) =
           Inr (Tuple2 (vsub flux_outer flux_inner)
                  (map fsqrt (annulus_fluxvar fluxerr_o fluxerr_i))) \<and>
         length (annulus_fluxvar fluxerr_o fluxerr_i) = length positions \<and>
         (\<forall>i < length positions.
            annulus_fluxvar fluxerr_o fluxerr_i ! i =
              fmax (fsub (fsq (fluxerr_o ! i)) (fsq (fluxerr_i ! i))) (Fin 0) \<and>
            map fsqrt (annulus_fluxvar fluxerr_o fluxerr_i) ! i =
              fsqrt (fmax (fsub (fsq (fluxerr_o ! i)) (fsq (fluxerr_i ! i))) (Fin 0)) \<and>
            (isnan (annulus_fluxvar fluxerr_o fluxerr_i ! i) \<or>
             nonneg (annulus_fluxvar fluxerr_o fluxerr_i ! i)) \<and>
            (\<forall>a b. fluxerr_o ! i = Fin a \<longrightarrow> fluxerr_i ! i = Fin b \<longrightarrow>
               annulus_fluxvar fluxerr_o fluxerr_i ! i = Fin (max (a * a - b * b) 0) \<and>
               map fsqrt (annulus_fluxvar fluxerr_o fluxerr_i) ! i =
                 Fin (sqrt (max (a * a - b * b) 0))))"
proof -
  from single_aperture_do_photometry [OF outer] obtain g1 where
    g1: "snd (do_photometry g1 data positions ext error gain pw method subpixels)
           = Inr (Tuple2 flux_outer fluxerr_o)"
    by blast
  from single_aperture_do_photometry [OF inner] obtain g2 where
    g2: "snd (do_photometry g2 data positions ext error gain pw method subpixels)
           = Inr (Tuple2 flux_inner fluxerr_i)"
    by blast
  have lo: "length fluxerr_o = length positions"
    using do_photometry_length [OF g1] by simp
  have li: "length fluxerr_i = length positions"
    using do_photometry_length [OF g2] by simp
  have ret: "snd (do_annulus_photometry cgrid egrid data positions mode ext inner_params
                outer_params error gain pw method subpixels) =
           Inr (Tuple2 (vsub flux_outer flux_inner)
                  (map fsqrt (annulus_fluxvar fluxerr_o fluxerr_i)))"
    using annulus_snd [OF mode outer inner] err by simp
  have len: "length (annulus_fluxvar fluxerr_o fluxerr_i) = length positions"
    by (rule annulus_fluxvar_length [OF lo li])
  have each: "annulus_fluxvar fluxerr_o fluxerr_i ! i =
              fmax (fsub (fsq (fluxerr_o ! i)) (fsq (fluxerr_i ! i))) (Fin 0) \<and>
            map fsqrt (annulus_fluxvar fluxerr_o fluxerr_i) ! i =
              fsqrt (fmax (fsub (fsq (fluxerr_o ! i)) (fsq (fluxerr_i ! i))) (Fin 0)) \<and>
            (isnan (annulus_fluxvar fluxerr_o fluxerr_i ! i) \<or>
             nonneg (annulus_fluxvar fluxerr_o fluxerr_i ! i)) \<and>
            (\<forall>a b. fluxerr_o ! i = Fin a \<longrightarrow> fluxerr_i ! i = Fin b \<longrightarrow>
               annulus_fluxvar fluxerr_o fluxerr_i ! i = Fin (max (a * a - b * b) 0) \<and>
               map fsqrt (annulus_fluxvar fluxerr_o fluxerr_i) ! i =
                 Fin (sqrt (max (a * a - b * b) 0)))"
    if i: "i < length positions" for i
  proof -
    have v: "annulus_fluxvar fluxerr_o fluxerr_i ! i =
              fmax (fsub (fsq (fluxerr_o ! i)) (fsq (fluxerr_i ! i))) (Fin 0)"
      by (rule annulus_fluxvar_nth [OF lo li i])
    have s: "map fsqrt (annulus_fluxvar fluxerr_o fluxerr_i) ! i =
               fsqrt (annulus_fluxvar fluxerr_o fluxerr_i ! i)"
      using len i by simp
    have sign: "isnan (annulus_fluxvar fluxerr_o fluxerr_i ! i) \<or>
                nonneg (annulus_fluxvar fluxerr_o fluxerr_i ! i)"
      unfolding v by (rule fmax_zero_sign)
    have fin: "annulus_fluxvar fluxerr_o fluxerr_i ! i = Fin (max (a * a - b * b) 0) \<and>
               map fsqrt (annulus_fluxvar fluxerr_o fluxerr_i) ! i =
                 Fin (sqrt (max (a * a - b * b) 0))"
      if "fluxerr_o ! i = Fin a" and "fluxerr_i ! i = Fin b" for a b
      using annulus_fluxvar_finite [OF lo li i that] s by simp
    show ?thesis using v s sign fin by simp
  qed
  show ?thesis using ret len each by blast
qed

text \<open>
  An annulus on the image of two rows and two columns: the outer aperture (radius \<open>2\<close>)
  has flux \<open>4\<close> and flux error \<open>2\<close>, the inner one (radius \<open>1\<close>) flux \<open>1\<close> and flux
  error \<open>1\<close>.
\<close>

lemma single_outer_example:
  "snd (single_aperture quarter_circular full_elliptical ''circular'' (uniform 2 2 1)
          [(Fin 1, Fin 1)] one_inside [Fin 2] (Some (uniform 2 2 1)) None True ''exact'' 5)
     = Inr (Tuple2 [Fin 4] [Fin 2])"
  by (simp add: single_aperture_def call_circular_def photometry_defs array_defs
        find_fluxvar_def fsq_def upt2)

lemma single_inner_example:
  "snd (single_aperture quarter_circular full_elliptical ''circular'' (uniform 2 2 1)
          [(Fin 1, Fin 1)] one_inside [Fin 1] (Some (uniform 2 2 1)) None True ''exact'' 5)
     = Inr (Tuple2 [Fin 1] [Fin 1])"
  by (simp add: single_aperture_def call_circular_def photometry_defs array_defs
        find_fluxvar_def fsq_def upt2)


text \<open>
  The same two apertures with the parameter tuples exchanged: the difference of the
  squares is \<open>1 - 4\<close>, and the clamp makes the variance \<open>0\<close>.
\<close>

theorem annulus_variance_witness:
  "(''circular'' = ''circular'' \<or> ''circular'' = ''elliptical'') \<and>
   snd (single_aperture quarter_circular full_elliptical ''circular'' (uniform 2 2 1)
          [(Fin 1, Fin 1)] one_inside [Fin 2] (Some (uniform 2 2 1)) None True ''exact'' 5)
     = Inr (Tuple2 [Fin 4] [Fin 2]) \<and>
   snd (single_aperture quarter_circular full_elliptical ''circular'' (uniform 2 2 1)
          [(Fin 1, Fin 1)] one_inside [Fin 1] (Some (uniform 2 2 1)) None True ''exact'' 5)
     = Inr (Tuple2 [Fin 1] [Fin 1]) \<and>
   snd (do_annulus_photometry quarter_circular full_elliptical (uniform 2 2 1)
          [(Fin 1, Fin 1)] ''circular'' one_inside [Fin 1] [Fin 2]
          (Some (uniform 2 2 1)) None True ''exact'' 5)
     = Inr (Tuple2 [Fin 3] [Fin (sqrt 3)]) \<and>
   annulus_fluxvar [Fin 2] [Fin 1] = [Fin 3] \<and>
   snd (do_annulus_photometry quarter_circular full_elliptical (uniform 2 2 1)
          [(Fin 1, Fin 1)] ''circular'' one_inside [Fin 2] [Fin 1]
          (Some (uniform 2 2 1)) None True ''exact'' 5)
     = Inr (Tuple2 [Fin (- 3)] [Fin 0]) \<and>
   annulus_fluxvar [Fin 1] [Fin 2] = [Fin 0]"
proof -
  let ?ps = "[(Fin 1, Fin 1)] :: position list"
  have h1: "''circular'' = ''circular'' \<or> ''circular'' = ''elliptical''" by simp
  have h2: "Some (uniform 2 2 1) = Some (uniform 2 2 1)" by simp
  note t1 = annulus_variance [OF h1 h2 single_outer_example single_inner_example]
  note t2 = annulus_variance [OF h1 h2 single_inner_example single_outer_example]
  have i0: "(0 :: nat) < length ?ps" by simp
  have a1: "annulus_fluxvar [Fin 2] [Fin 1] ! 0 = Fin (max (2 * 2 - 1 * 1) 0)"
    using t1 i0 by (metis nth_Cons_0)
  have a2: "annulus_fluxvar [Fin 1] [Fin 2] ! 0 = Fin (max (1 * 1 - 2 * 2) 0)"
    using t2 i0 by (metis nth_Cons_0)
  have l1: "length (annulus_fluxvar [Fin 2] [Fin 1]) = 1" using t1 by simp
  have l2: "length (annulus_fluxvar [Fin 1] [Fin 2]) = 1" using t2 by simp
  have v1: "annulus_fluxvar [Fin 2] [Fin 1] = [Fin 3]"
    using a1 l1 by (cases "annulus_fluxvar [Fin 2] [Fin 1]") simp_all
  have v2: "annulus_fluxvar [Fin 1] [Fin 2] = [Fin 0]"
    using a2 l2 by (cases "annulus_fluxvar [Fin 1] [Fin 2]") simp_all
  from t1 have r1: "snd (do_annulus_photometry quarter_circular full_elliptical (uniform 2 2 1)
          ?ps ''circular'' one_inside [Fin 1] [Fin 2]
          (Some (uniform 2 2 1)) None True ''exact'' 5)
     = Inr (Tuple2 [Fin 3] [Fin (sqrt 3)])"
    by (simp add: v1) (simp add: vsub_def fsub_def)
  from t2 have r2: "snd (do_annulus_photometry quarter_circular full_elliptical (uniform 2 2 1)
          ?ps ''circular'' one_inside [Fin 2] [Fin 1]
          (Some (uniform 2 2 1)) None True ''exact'' 5)
     = Inr (Tuple2 [Fin (- 3)] [Fin 0])"
    by (simp add: v2) (simp add: vsub_def fsub_def)
  show ?thesis
    using h1 v1 v2 r1 r2 single_outer_example single_inner_example by blast
qed


section \<open>Claim on the positions partly outside the data\<close>

text \<open>
  A call in which some positions are flagged and some are not runs the loop on the flux
  array that holds NaN at the flagged positions and \<open>0\<close> elsewhere.
\<close>

lemma count_true_some:
  assumes "i < length fs" and "fs ! i"
  shows "count_true fs \<noteq> 0"
  using assms count_true_zero [of fs] by (metis nth_mem)

lemma count_true_not_all:
  assumes "i < length fs" and "\<not> fs ! i"
  shows "count_true fs \<noteq> length fs"
  using assms count_true_all [of fs] by (metis nth_mem)

lemma do_photometry_partial:
  assumes len: "length (ood_filter ext) = length positions"
    and some: "\<exists>i < length positions. ood_filter ext ! i"
    and notall: "\<exists>i < length positions. \<not> ood_filter ext ! i"
    and res: "resolve_method method subpixels = (ue, sp)"
    and ok: "\<forall>i < length positions. \<not> ood_filter ext ! i \<longrightarrow>
               (\<exists>m. measure_position grid data ext error gain pw ue sp i = Inr m)"
  shows "\<exists>r. do_photometry grid data positions ext error gain pw method subpixels =
                ([NoOverlapWarning (flagged positions (ood_filter ext))], Inr r) \<and>
              length (tuple0 r) = length positions \<and>
              (\<forall>i < length positions.
                 if ood_filter ext ! i then tuple0 r ! i = NaN
                 else position_flux grid data ext ue sp i = Inr (tuple0 r ! i)) \<and>
              (case r of Tuple1 f \<Rightarrow> error = None
               | Tuple2 f e \<Rightarrow> error \<noteq> None \<and> length e = length positions)"
proof -
  define flux1 where
    "flux1 = map (\<lambda>(x, m). if m then NaN else x)
               (zip (replicate (length positions) (Fin 0)) (ood_filter ext))"
  define fluxvar0 where
    "fluxvar0 = (case error of None \<Rightarrow> [] | Some err \<Rightarrow> replicate (length positions) (Fin 0))"
  have c0: "count_true (ood_filter ext) \<noteq> 0"
    using some len count_true_some [of _ "ood_filter ext"] by auto
  have cn: "count_true (ood_filter ext) \<noteq> length positions"
    using notall len count_true_not_all [of _ "ood_filter ext"] by auto
  have run: "do_photometry grid data positions ext error gain pw method subpixels =
           ([NoOverlapWarning (flagged positions (ood_filter ext))],
            photometry_main grid data ext error gain pw method subpixels flux1 fluxvar0)"
    using do_photometry_unfold [OF len cn] c0 by (simp add: flux1_def fluxvar0_def)
  have l1: "length flux1 = length positions" by (simp add: flux1_def len)
  have n1: "flux1 ! i = (if ood_filter ext ! i then NaN else Fin 0)"
    if "i < length positions" for i
    unfolding flux1_def using masked_flux_nth [OF len that] .
  have nan: "isnan (flux1 ! i) = ood_filter ext ! i" if "i < length positions" for i
    using n1 [OF that] by simp
  have ok1: "\<forall>i < length positions. \<not> isnan (flux1 ! i) \<longrightarrow>
               (\<exists>m. measure_position grid data ext error gain pw ue sp i = Inr m)"
    using ok nan by simp
  from photometry_main_measured [OF l1 res ok1, of fluxvar0] obtain r where
    m: "photometry_main grid data ext error gain pw method subpixels flux1 fluxvar0 = Inr r"
    and lr: "length (tuple0 r) = length positions"
    and each: "\<forall>i < length positions.
                 if isnan (flux1 ! i) then tuple0 r ! i = flux1 ! i
                 else position_flux grid data ext ue sp i = Inr (tuple0 r ! i)"
    and shape: "case r of Tuple1 f \<Rightarrow> error = None
                | Tuple2 f e \<Rightarrow> error \<noteq> None \<and> length e = length fluxvar0"
    by blast
  have each': "\<forall>i < length positions.
                 if ood_filter ext ! i then tuple0 r ! i = NaN
                 else position_flux grid data ext ue sp i = Inr (tuple0 r ! i)"
  proof (intro allI impI)
    fix i assume i: "i < length positions"
    with each have "if isnan (flux1 ! i) then tuple0 r ! i = flux1 ! i
                 else position_flux grid data ext ue sp i = Inr (tuple0 r ! i)" by blast
    then show "if ood_filter ext ! i then tuple0 r ! i = NaN
                 else position_flux grid data ext ue sp i = Inr (tuple0 r ! i)"
      using nan [OF i] n1 [OF i] by (simp split: if_splits)
  qed
  have shape': "case r of Tuple1 f \<Rightarrow> error = None
               | Tuple2 f e \<Rightarrow> error \<noteq> None \<and> length e = length positions"
    using shape by (cases r; cases error) (simp_all add: fluxvar0_def)
  show ?thesis using run m lr each' shape' by (intro exI [of _ r]) simp
qed

text \<open>
  A call in which some but not all positions are flagged out of the data, and in which
  measuring the positions that are not flagged raises no exception: one warning is
  emitted, which names the flagged positions; the call returns; the flux of every flagged
  position is NaN; the flux of every other position is the sum over its data window of
  the data times the overlap fractions, computed with the resolved method parameters; and
  the result is a tuple of one element without an error map, of two elements with one.
  The warning is an entry of the log of the call: it does not change what is returned.
\<close>

lemma partial_out_of_data:
  assumes len: "length (ood_filter ext) = length positions"
    and some: "\<exists>i < length positions. ood_filter ext ! i"
    and notall: "\<exists>i < length positions. \<not> ood_filter ext ! i"
    and res: "resolve_method method subpixels = (ue, sp)"
  shows "((\<forall>i < length positions. \<not> ood_filter ext ! i \<longrightarrow>
            (\<exists>m. measure_position (circular_grid cgrid radius) data ext error gain pw ue sp i
                    = Inr m)) \<longrightarrow>
          (\<exists>r. do_circular_photometry cgrid data positions ext radius error gain pw method
                  subpixels =
                  ([NoOverlapWarning (flagged positions (ood_filter ext))], Inr r) \<and>
                length (tuple0 r) = length positions \<and>
                (\<forall>i < length positions.
                   if ood_filter ext ! i then tuple0 r ! i = NaN
                   else position_flux (circular_grid cgrid radius) data ext ue sp i
                          = Inr (tuple0 r ! i)) \<and>
                (case r of Tuple1 f \<Rightarrow> error = None
                 | Tuple2 f e \<Rightarrow> error \<noteq> None \<and> length e = length positions))) \<and>
         ((\<forall>i < length positions. \<not> ood_filter ext ! i \<longrightarrow>
            (\<exists>m. measure_position (elliptical_grid egrid a b theta) data ext error gain pw
                    ue sp i = Inr m)) \<longrightarrow>
          (\<exists>r. do_elliptical_photometry egrid data positions ext a b theta error gain pw
                  method subpixels =
                  ([NoOverlapWarning (flagged positions (ood_filter ext))], Inr r) \<and>
                length (tuple0 r) = length positions \<and>
                (\<forall>i < length positions.
                   if ood_filter ext ! i then tuple0 r ! i = NaN
                   else position_flux (elliptical_grid egrid a b theta) data ext ue sp i
                          = Inr (tuple0 r ! i)) \<and>
                (case r of Tuple1 f \<Rightarrow> error = None
                 | Tuple2 f e \<Rightarrow> error \<noteq> None \<and> length e = length positions)))"
  unfolding do_circular_photometry_def do_elliptical_photometry_def
  using do_photometry_partial [OF len some notall res, of "circular_grid cgrid radius"]
    do_photometry_partial [OF len some notall res, of "elliptical_grid egrid a b theta"]
  by blast


text \<open>
  Two positions on the image of two rows and two columns: the first has the whole image
  as its window, the second is outside the data.
\<close>

lemma measure_inside_circular:
  "measure_position (circular_grid full_circular (Fin 1)) (uniform 2 2 1) inside_outside None
     None True 1 1 0 = Inr (Fin 4, None)"
  by (simp add: measure_position_def photometry_defs array_defs upt2)

lemma measure_inside_elliptical:
  "measure_position (elliptical_grid full_elliptical (Fin 2) (Fin 1) (Fin 0)) (uniform 2 2 1)
     inside_outside None None True 1 1 0 = Inr (Fin 4, None)"
  by (simp add: measure_position_def photometry_defs array_defs upt2)

lemma two_elements:
  assumes "length xs = 2" and "xs ! 0 = a" and "xs ! 1 = b"
  shows "xs = [a, b]"
proof -
  from assms(1) obtain x y where "xs = [x, y]"
    by (auto simp: numeral_2_eq_2 length_Suc_conv)
  with assms(2,3) show ?thesis by simp
qed

lemma partial_out_of_data_example:
  "length (ood_filter inside_outside) = length [(Fin 1, Fin 1), (Fin 10, Fin 10)] \<and>
   ood_filter inside_outside ! 1 \<and> \<not> ood_filter inside_outside ! 0 \<and>
   resolve_method ''exact'' 5 = (1, 1) \<and>
   measure_position (circular_grid full_circular (Fin 1)) (uniform 2 2 1) inside_outside None
     None True 1 1 0 = Inr (Fin 4, None) \<and>
   measure_position (elliptical_grid full_elliptical (Fin 2) (Fin 1) (Fin 0)) (uniform 2 2 1)
     inside_outside None None True 1 1 0 = Inr (Fin 4, None) \<and>
   do_circular_photometry full_circular (uniform 2 2 1) [(Fin 1, Fin 1), (Fin 10, Fin 10)]
     inside_outside (Fin 1) None None True ''exact'' 5
   = ([NoOverlapWarning [(Fin 10, Fin 10)]], Inr (Tuple1 [Fin 4, NaN])) \<and>
   do_elliptical_photometry full_elliptical (uniform 2 2 1) [(Fin 1, Fin 1), (Fin 10, Fin 10)]
     inside_outside (Fin 2) (Fin 1) (Fin 0) None None True ''exact'' 5
   = ([NoOverlapWarning [(Fin 10, Fin 10)]], Inr (Tuple1 [Fin 4, NaN]))"
proof -
  let ?ps = "[(Fin 1, Fin 1), (Fin 10, Fin 10)] :: position list"
  have h1: "length (ood_filter inside_outside) = length ?ps"
    by (simp add: inside_outside_def)
  have o1: "ood_filter inside_outside ! 1" and o0: "\<not> ood_filter inside_outside ! 0"
    by (simp_all add: inside_outside_def)
  have h2: "\<exists>i < length ?ps. ood_filter inside_outside ! i"
    using o1 by (intro exI [of _ 1]) simp
  have h3: "\<exists>i < length ?ps. \<not> ood_filter inside_outside ! i"
    using o0 by (intro exI [of _ 0]) simp
  have h4: "resolve_method ''exact'' 5 = (1, 1)"
    by (simp add: resolve_method_def)
  have only0: "i = 0" if "i < length ?ps" and "\<not> ood_filter inside_outside ! i" for i
    using that o1 by (cases i) (auto simp: less_Suc_eq)
  have okc: "\<forall>i < length ?ps. \<not> ood_filter inside_outside ! i \<longrightarrow>
            (\<exists>m. measure_position (circular_grid full_circular (Fin 1)) (uniform 2 2 1)
                    inside_outside None None True 1 1 i = Inr m)"
    using only0 measure_inside_circular by blast
  have oke: "\<forall>i < length ?ps. \<not> ood_filter inside_outside ! i \<longrightarrow>
            (\<exists>m. measure_position (elliptical_grid full_elliptical (Fin 2) (Fin 1) (Fin 0))
                    (uniform 2 2 1) inside_outside None None True 1 1 i = Inr m)"
    using only0 measure_inside_elliptical by blast
  have fl: "flagged ?ps (ood_filter inside_outside) = [(Fin 10, Fin 10)]"
    by (simp add: flagged_def inside_outside_def)
  have pc: "position_flux (circular_grid full_circular (Fin 1)) (uniform 2 2 1) inside_outside
              1 1 0 = Inr (Fin 4)"
    by (rule measure_position_flux [OF measure_inside_circular])
  have pe: "position_flux (elliptical_grid full_elliptical (Fin 2) (Fin 1) (Fin 0))
              (uniform 2 2 1) inside_outside 1 1 0 = Inr (Fin 4)"
    by (rule measure_position_flux [OF measure_inside_elliptical])
  note t = partial_out_of_data [OF h1 h2 h3 h4, of full_circular "Fin 1" "uniform 2 2 1" None
             None True full_elliptical "Fin 2" "Fin 1" "Fin 0"]
  from t okc obtain r where
    rc: "do_circular_photometry full_circular (uniform 2 2 1) ?ps inside_outside (Fin 1) None
           None True ''exact'' 5 = ([NoOverlapWarning (flagged ?ps (ood_filter inside_outside))],
           Inr r)"
    and lc: "length (tuple0 r) = length ?ps"
    and vc: "\<forall>i < length ?ps.
               if ood_filter inside_outside ! i then tuple0 r ! i = NaN
               else position_flux (circular_grid full_circular (Fin 1)) (uniform 2 2 1)
                      inside_outside 1 1 i = Inr (tuple0 r ! i)"
    and sc: "case r of Tuple1 f \<Rightarrow> (None :: arr2 option) = None
             | Tuple2 f e \<Rightarrow> (None :: arr2 option) \<noteq> None \<and> length e = length ?ps"
    by blast
  have r0: "tuple0 r ! 0 = Fin 4" using vc o0 pc by auto
  have r1: "tuple0 r ! 1 = NaN" using vc o1 by auto
  have r2: "length (tuple0 r) = 2" using lc by simp
  have "tuple0 r = [Fin 4, NaN]" by (rule two_elements [OF r2 r0 r1])
  with sc have r: "r = Tuple1 [Fin 4, NaN]" by (cases r) simp_all
  from t oke obtain q where
    re: "do_elliptical_photometry full_elliptical (uniform 2 2 1) ?ps inside_outside (Fin 2)
           (Fin 1) (Fin 0) None None True ''exact'' 5 =
           ([NoOverlapWarning (flagged ?ps (ood_filter inside_outside))], Inr q)"
    and le: "length (tuple0 q) = length ?ps"
    and ve: "\<forall>i < length ?ps.
               if ood_filter inside_outside ! i then tuple0 q ! i = NaN
               else position_flux (elliptical_grid full_elliptical (Fin 2) (Fin 1) (Fin 0))
                      (uniform 2 2 1) inside_outside 1 1 i = Inr (tuple0 q ! i)"
    and se: "case q of Tuple1 f \<Rightarrow> (None :: arr2 option) = None
             | Tuple2 f e \<Rightarrow> (None :: arr2 option) \<noteq> None \<and> length e = length ?ps"
    by blast
  have q0: "tuple0 q ! 0 = Fin 4" using ve o0 pe by auto
  have q1: "tuple0 q ! 1 = NaN" using ve o1 by auto
  have q2: "length (tuple0 q) = 2" using le by simp
  have "tuple0 q = [Fin 4, NaN]" by (rule two_elements [OF q2 q0 q1])
  with se have q: "q = Tuple1 [Fin 4, NaN]" by (cases q) simp_all
  show ?thesis
    using h1 o1 o0 h4 measure_inside_circular measure_inside_elliptical rc re
    unfolding fl r q by blast
qed

text \<open>
  Claim C5 says that a call with some but not all positions flagged processes the other
  positions and returns their flux. With an error map and \<^verbatim>\<open>pixelwise_error = False\<close> the
  code does not: for a position on the last pixel of the image the clipped window is
  \<open>[1, 2)\<close> on both axes, \<^verbatim>\<open>int((1 + 2) / 2 + 0.5)\<close> is \<open>2\<close>, one past the window and past
  the error map, and \<^verbatim>\<open>find_fluxvar\<close> raises IndexError after the warning was emitted;
  nothing is returned. On the same input the pixelwise branch returns the flux and the
  flux error, and the call without an error map returns the flux.
\<close>

theorem edge_window_raises:
  "do_circular_photometry full_circular (uniform 2 2 1) [(Fin 1, Fin 1), (Fin 10, Fin 10)]
     edge_outside (Fin (2 / 5)) (Some (uniform 2 2 1)) None False ''exact'' 5
   = ([NoOverlapWarning [(Fin 10, Fin 10)]], Inl SubscriptOutOfRange) \<and>
   exc_class SubscriptOutOfRange = IndexError \<and>
   center_index 1 2 = 2 \<and>
   do_circular_photometry full_circular (uniform 2 2 1) [(Fin 1, Fin 1), (Fin 10, Fin 10)]
     edge_outside (Fin (2 / 5)) (Some (uniform 2 2 1)) None True ''exact'' 5
   = ([NoOverlapWarning [(Fin 10, Fin 10)]], Inr (Tuple2 [Fin 1, NaN] [Fin 1, Fin 0])) \<and>
   do_circular_photometry full_circular (uniform 2 2 1) [(Fin 1, Fin 1), (Fin 10, Fin 10)]
     edge_outside (Fin (2 / 5)) None None False ''exact'' 5
   = ([NoOverlapWarning [(Fin 10, Fin 10)]], Inr (Tuple1 [Fin 1, NaN]))"
proof -
  have a: "do_circular_photometry full_circular (uniform 2 2 1)
     [(Fin 1, Fin 1), (Fin 10, Fin 10)]
     edge_outside (Fin (2 / 5)) (Some (uniform 2 2 1)) None False ''exact'' 5
   = ([NoOverlapWarning [(Fin 10, Fin 10)]], Inl SubscriptOutOfRange)"
    by (simp add: edge_defs center_index_1_2 upt2)
  have b: "do_circular_photometry full_circular (uniform 2 2 1)
     [(Fin 1, Fin 1), (Fin 10, Fin 10)]
     edge_outside (Fin (2 / 5)) (Some (uniform 2 2 1)) None True ''exact'' 5
   = ([NoOverlapWarning [(Fin 10, Fin 10)]], Inr (Tuple2 [Fin 1, NaN] [Fin 1, Fin 0]))"
    by (simp add: edge_defs upt2)
  have c: "do_circular_photometry full_circular (uniform 2 2 1)
     [(Fin 1, Fin 1), (Fin 10, Fin 10)]
     edge_outside (Fin (2 / 5)) None None False ''exact'' 5
   = ([NoOverlapWarning [(Fin 10, Fin 10)]], Inr (Tuple1 [Fin 1, NaN]))"
    by (simp add: edge_defs upt2)
  show ?thesis using a b c center_index_1_2 by simp
qed


section \<open>Claim on the aggregate variance\<close>

text \<open>
  \<^verbatim>\<open>int(x)\<close> truncates towards zero, so \<^verbatim>\<open>int((lo + hi) / 2 + 0.5)\<close> is the floor of
  its argument when \<open>lo + hi\<close> is not negative, as it is for the bounds of a window
  clipped to the image.
\<close>

lemma center_index_floor:
  assumes "0 \<le> lo + hi"
  shows "center_index lo hi = \<lfloor>real_of_int (lo + hi) / 2 + 1 / 2\<rfloor>"
  using assms by (simp add: center_index_def py_int_def)

text \<open>
  For bounds whose sum is negative and even the two differ: truncation gives \<open>0\<close> where
  the floor is \<open>-1\<close>. Such bounds are not window bounds of an image.
\<close>

lemma center_index_negative:
  "center_index (- 2) 0 = 0 \<and> \<lfloor>real_of_int (- 2 + 0) / 2 + 1 / 2\<rfloor> = (- 1 :: int)"
proof -
  have "\<lceil>- (1 / 2) :: real\<rceil> = 0" by (simp add: ceiling_eq_iff)
  moreover have "\<lfloor>- (1 / 2) :: real\<rfloor> = - 1" by (simp add: floor_eq_iff)
  ultimately show ?thesis by (simp add: center_index_def py_int_def)
qed

lemma axis_index_in_range:
  assumes "0 \<le> k" and "k < int n"
  shows "axis_index n k = Inr (nat k)"
  using assms by (simp add: axis_index_def)

text \<open>
  Claim C8, as stated, fails on two inputs. On a window of one row and one column at the
  last pixel of an image of two rows and two columns, the index is
  \<^verbatim>\<open>int((1 + 2) / 2 + 0.5) = 2\<close>, outside the error map: no value is sampled and
  IndexError is raised. On the bounds \<open>-2\<close> and \<open>0\<close> the index \<^verbatim>\<open>int(-1 + 0.5)\<close> is \<open>0\<close>,
  not the floor \<open>-1\<close>: the variance comes from the first cell of the error map (\<open>1\<close>),
  not from the last one (\<open>5\<close>), which is where the subscript \<open>-1\<close> reads.
\<close>

theorem centre_index_counterexample:
  "find_fluxvar (uniform 2 2 1) (uniform 1 1 1) (uniform 2 2 1) (Fin 1) None 1 2 1 2 False
     = Inl SubscriptOutOfRange \<and>
   exc_class SubscriptOutOfRange = IndexError \<and>
   center_index 1 2 = 2 \<and>
   find_fluxvar (uniform 3 3 1) (uniform 1 1 1) marked_corner (Fin 1) None (- 2) 0 (- 2) 0 False
     = Inr (Fin 1) \<and>
   center_index (- 2) 0 = 0 \<and>
   \<lfloor>real_of_int (- 2 + 0) / 2 + 1 / 2\<rfloor> = (- 1 :: int) \<and>
   subscript marked_corner (- 1) (- 1) = Inr (Fin 5)"
proof -
  have a: "find_fluxvar (uniform 2 2 1) (uniform 1 1 1) (uniform 2 2 1) (Fin 1) None 1 2 1 2
             False = Inl SubscriptOutOfRange"
    by (simp add: find_fluxvar_def center_index_1_2 subscript_def axis_index_def bindE_def
          uniform_def)
  have n: "center_index (- 2) 0 = 0"
    and f: "\<lfloor>real_of_int (- 2 + 0) / 2 + 1 / 2\<rfloor> = (- 1 :: int)"
    using center_index_negative by simp_all
  have b: "find_fluxvar (uniform 3 3 1) (uniform 1 1 1) marked_corner (Fin 1) None (- 2) 0
             (- 2) 0 False = Inr (Fin 1)"
    by (simp add: find_fluxvar_def n subscript_def axis_index_def bindE_def marked_corner_def
          asum_uniform_1_1 fsq_def)
  have c: "subscript marked_corner (- 1) (- 1) = Inr (Fin 5)"
    by (simp add: subscript_def axis_index_def bindE_def marked_corner_def)
  show ?thesis using a b c n f center_index_1_2 by simp
qed

text \<open>
  Claim C8, amended. In aggregate mode (\<^verbatim>\<open>pixelwise_error = False\<close>), for window bounds
  whose sums are not negative and a center pixel inside the error map (and the gain map,
  when one is given): the row and the column of the center pixel are
  \<open>floor((jmin + jmax) / 2 + 0.5)\<close> and \<open>floor((imin + imax) / 2 + 0.5)\<close>; the variance is
  the square of the error at that pixel times the sum of the overlap fractions, clamped
  at \<open>0\<close> by \<^verbatim>\<open>np.maximum\<close>; and with a gain map, \<^verbatim>\<open>flux / local_gain\<close> is added to it,
  the gain being read at the same pixel. The clamped term is never negative; for a finite
  error \<open>e\<close>, a finite sum of fractions \<open>s\<close>, a finite flux \<open>f\<close> and a finite gain \<open>q\<close> that
  is not zero, the variance is the real number \<open>max (e * e * s) 0\<close> without a gain map and
  \<open>max (e * e * s) 0 + f / q\<close> with one.
\<close>

theorem centre_sample_variance:
  assumes jn: "0 \<le> jmin + jmax" and im: "0 \<le> imin + imax"
    and r: "r = \<lfloor>real_of_int (jmin + jmax) / 2 + 1 / 2\<rfloor>"
    and c: "c = \<lfloor>real_of_int (imin + imax) / 2 + 1 / 2\<rfloor>"
    and re: "r < int (nrows error)" and ce: "c < int (ncols error)"
    and rg: "\<forall>g. gain = Some g \<longrightarrow> r < int (nrows g) \<and> c < int (ncols g)"
  shows "center_index jmin jmax = r \<and> center_index imin imax = c \<and>
         find_fluxvar data fraction error flux gain imin imax jmin jmax False =
           Inr (case gain of
                  None \<Rightarrow>
                    fmax (fmul (fsq (cell error (nat r) (nat c))) (asum fraction)) (Fin 0)
                | Some g \<Rightarrow>
                    fadd (fmax (fmul (fsq (cell error (nat r) (nat c))) (asum fraction)) (Fin 0))
                         (fdiv flux (cell g (nat r) (nat c)))) \<and>
         (isnan (fmax (fmul (fsq (cell error (nat r) (nat c))) (asum fraction)) (Fin 0)) \<or>
          nonneg (fmax (fmul (fsq (cell error (nat r) (nat c))) (asum fraction)) (Fin 0))) \<and>
         (\<forall>e s. cell error (nat r) (nat c) = Fin e \<longrightarrow> asum fraction = Fin s \<longrightarrow>
            gain = None \<longrightarrow>
            find_fluxvar data fraction error flux gain imin imax jmin jmax False =
              Inr (Fin (max (e * e * s) 0))) \<and>
         (\<forall>e s f g q. cell error (nat r) (nat c) = Fin e \<longrightarrow> asum fraction = Fin s \<longrightarrow>
            flux = Fin f \<longrightarrow> gain = Some g \<longrightarrow> cell g (nat r) (nat c) = Fin q \<longrightarrow> q \<noteq> 0 \<longrightarrow>
            find_fluxvar data fraction error flux gain imin imax jmin jmax False =
              Inr (Fin (max (e * e * s) 0 + f / q)))"
proof -
  have cr: "center_index jmin jmax = r" using center_index_floor [OF jn] r by simp
  have cc: "center_index imin imax = c" using center_index_floor [OF im] c by simp
  have r0: "0 \<le> r" using jn r by simp
  have c0: "0 \<le> c" using im c by simp
  have e: "subscript error r c = Inr (cell error (nat r) (nat c))"
    by (simp add: subscript_def bindE_def axis_index_in_range [OF r0 re]
          axis_index_in_range [OF c0 ce])
  have val: "find_fluxvar data fraction error flux gain imin imax jmin jmax False =
           Inr (case gain of
                  None \<Rightarrow>
                    fmax (fmul (fsq (cell error (nat r) (nat c))) (asum fraction)) (Fin 0)
                | Some g \<Rightarrow>
                    fadd (fmax (fmul (fsq (cell error (nat r) (nat c))) (asum fraction)) (Fin 0))
                         (fdiv flux (cell g (nat r) (nat c))))"
  proof (cases gain)
    case None
    then show ?thesis by (simp add: find_fluxvar_def cr cc e bindE_def)
  next
    case (Some g)
    with rg have "r < int (nrows g)" and "c < int (ncols g)" by simp_all
    then have "subscript g r c = Inr (cell g (nat r) (nat c))"
      by (simp add: subscript_def bindE_def axis_index_in_range [OF r0]
            axis_index_in_range [OF c0])
    with Some show ?thesis by (simp add: find_fluxvar_def cr cc e bindE_def)
  qed
  have sign: "isnan (fmax (fmul (fsq (cell error (nat r) (nat c))) (asum fraction)) (Fin 0)) \<or>
          nonneg (fmax (fmul (fsq (cell error (nat r) (nat c))) (asum fraction)) (Fin 0))"
    by (rule fmax_zero_sign)
  have none: "find_fluxvar data fraction error flux gain imin imax jmin jmax False =
              Inr (Fin (max (e * e * s) 0))"
    if "cell error (nat r) (nat c) = Fin e" and "asum fraction = Fin s" and "gain = None"
    for e s
    using val that by (simp add: fsq_def)
  have some: "find_fluxvar data fraction error flux gain imin imax jmin jmax False =
              Inr (Fin (max (e * e * s) 0 + f / q))"
    if "cell error (nat r) (nat c) = Fin e" and "asum fraction = Fin s" and "flux = Fin f"
      and "gain = Some g" and "cell g (nat r) (nat c) = Fin q" and "q \<noteq> 0"
    for e s f g q
    using val that by (simp add: fsq_def)
  show ?thesis using cr cc val sign none some by blast
qed

text \<open>
  On the image of two rows and two columns, with the error \<open>3\<close>, the flux \<open>4\<close> and the
  gain \<open>2\<close>: a sum of fractions of \<open>4\<close> gives \<open>36 + 2\<close>; a sum of \<open>-4\<close> is clamped and
  gives \<open>0 + 2\<close>, and \<open>0\<close> without a gain map.
\<close>

theorem centre_sample_variance_witness:
  "(0 :: int) \<le> 0 + 2 \<and>
   (1 :: int) = \<lfloor>real_of_int (0 + 2) / 2 + 1 / 2\<rfloor> \<and>
   (1 :: int) < int (nrows (uniform 2 2 3)) \<and> (1 :: int) < int (ncols (uniform 2 2 3)) \<and>
   (1 :: int) < int (nrows (uniform 2 2 2)) \<and> (1 :: int) < int (ncols (uniform 2 2 2)) \<and>
   center_index 0 2 = 1 \<and>
   find_fluxvar (uniform 2 2 1) (uniform 2 2 1) (uniform 2 2 3) (Fin 4) (Some (uniform 2 2 2))
     0 2 0 2 False = Inr (Fin 38) \<and>
   find_fluxvar (uniform 2 2 1) (uniform 2 2 (- 1)) (uniform 2 2 3) (Fin 4)
     (Some (uniform 2 2 2)) 0 2 0 2 False = Inr (Fin 2) \<and>
   find_fluxvar (uniform 2 2 1) (uniform 2 2 (- 1)) (uniform 2 2 3) (Fin 4) None
     0 2 0 2 False = Inr (Fin 0)"
proof -
  have h1: "(0 :: int) \<le> 0 + 2" by simp
  have h2: "(1 :: int) = \<lfloor>real_of_int (0 + 2) / 2 + 1 / 2\<rfloor>" by simp
  have h3: "(1 :: int) < int (nrows (uniform 2 2 3))"
    and h4: "(1 :: int) < int (ncols (uniform 2 2 3))"
    and h5: "(1 :: int) < int (nrows (uniform 2 2 2))"
    and h6: "(1 :: int) < int (ncols (uniform 2 2 2))"
    by (simp_all add: uniform_def)
  have h7: "\<forall>g. Some (uniform 2 2 2) = Some g \<longrightarrow> 1 < int (nrows g) \<and> 1 < int (ncols g)"
    using h5 h6 by simp
  have h8: "\<forall>g. (None :: arr2 option) = Some g \<longrightarrow> 1 < int (nrows g) \<and> 1 < int (ncols g)"
    by simp
  have e3: "cell (uniform 2 2 3) (nat 1) (nat 1) = Fin 3"
    and g2: "cell (uniform 2 2 2) (nat 1) (nat 1) = Fin 2"
    by (simp_all add: uniform_def)
  have two: "(2 :: real) \<noteq> 0" by simp
  note t1 = centre_sample_variance [OF h1 h1 h2 h2 h3 h4 h7, of "uniform 2 2 1" "uniform 2 2 1"
              "Fin 4"]
  note t2 = centre_sample_variance [OF h1 h1 h2 h2 h3 h4 h7, of "uniform 2 2 1" "uniform 2 2 (- 1)"
              "Fin 4"]
  note t3 = centre_sample_variance [OF h1 h1 h2 h2 h3 h4 h8, of "uniform 2 2 1" "uniform 2 2 (- 1)"
              "Fin 4"]
  have c: "center_index 0 2 = 1" using t1 by blast
  from t1 e3 g2 two asum_uniform_2_2 [of 1]
  have "find_fluxvar (uniform 2 2 1) (uniform 2 2 1) (uniform 2 2 3) (Fin 4)
          (Some (uniform 2 2 2)) 0 2 0 2 False = Inr (Fin (max (3 * 3 * (4 * 1)) 0 + 4 / 2))"
    by blast
  then have r1: "find_fluxvar (uniform 2 2 1) (uniform 2 2 1) (uniform 2 2 3) (Fin 4)
          (Some (uniform 2 2 2)) 0 2 0 2 False = Inr (Fin 38)"
    by simp
  from t2 e3 g2 two asum_uniform_2_2 [of "- 1"]
  have "find_fluxvar (uniform 2 2 1) (uniform 2 2 (- 1)) (uniform 2 2 3) (Fin 4)
          (Some (uniform 2 2 2)) 0 2 0 2 False = Inr (Fin (max (3 * 3 * (4 * - 1)) 0 + 4 / 2))"
    by blast
  then have r2: "find_fluxvar (uniform 2 2 1) (uniform 2 2 (- 1)) (uniform 2 2 3) (Fin 4)
          (Some (uniform 2 2 2)) 0 2 0 2 False = Inr (Fin 2)"
    by simp
  from t3 e3 asum_uniform_2_2 [of "- 1"]
  have "find_fluxvar (uniform 2 2 1) (uniform 2 2 (- 1)) (uniform 2 2 3) (Fin 4) None
          0 2 0 2 False = Inr (Fin (max (3 * 3 * (4 * - 1)) 0))"
    by blast
  then have r3: "find_fluxvar (uniform 2 2 1) (uniform 2 2 (- 1)) (uniform 2 2 3) (Fin 4) None
          0 2 0 2 False = Inr (Fin 0)"
    by simp
  show ?thesis using h1 h2 h3 h4 h5 h6 c r1 r2 r3 by blast
qed

end
